theory Spec2Isabelle
  imports Complex_Main "HOL-Library.AList"
begin

section \<open>The hedge menu of the options terminal: data model\<close>

text \<open>
  The development embeds \<^verbatim>\<open>hedge_controller.py\<close> (class \<^verbatim>\<open>HedgeController\<close>) and
  \<^verbatim>\<open>hedge_view.py\<close>. The value of a Python float is read as a real; where the code adds
  floats and tests the result (the sum of the weights in \<^verbatim>\<open>show_calculated_hedge\<close>), the
  addition is the floats' own, a parameter of the model. Python dictionaries are association
  lists in insertion order (\<open>d[k] = v\<close> is \<open>AList.update k v d\<close>, \<open>d[k]\<close> is
  \<open>map_of d k\<close> with \<open>None\<close> for \<^verbatim>\<open>KeyError\<close>, \<open>not d\<close> is \<open>d = []\<close>).
\<close>

datatype py_error = ValueError | IndexError | KeyError | TypeError

text \<open>
  A value that is a float at one time and a string at another: \<^verbatim>\<open>self.strike\<close> starts as
  \<^verbatim>\<open>0.0\<close> and is assigned the command line's word by \<^verbatim>\<open>call_pick\<close>.
\<close>

datatype pyval = PyFloat real | PyStr string

text \<open>
  The option dictionary built by \<^verbatim>\<open>call_add\<close> (keys \<^verbatim>\<open>type\<close>, \<^verbatim>\<open>sign\<close>, \<^verbatim>\<open>strike\<close>,
  \<^verbatim>\<open>implied_volatility\<close>, \<^verbatim>\<open>cost\<close>). A slot of \<^verbatim>\<open>self.options\<close> holds such a dictionary or
  the empty dictionary, which is \<open>None\<close> here.
\<close>

record leg =
  leg_type :: string
  leg_sign :: int
  leg_strike :: real
  leg_implied_volatility :: real
  leg_cost :: real

type_synonym options_dict = "(string \<times> leg option) list"

text \<open>\<^verbatim>\<open>self.greeks\<close>: slot name to a dictionary from \<^verbatim>\<open>Delta\<close>, \<^verbatim>\<open>Gamma\<close>, \<^verbatim>\<open>Vega\<close> to floats.\<close>

type_synonym greeks_entry = "(string \<times> real) list"

type_synonym greeks_dict = "(string \<times> greeks_entry) list"

text \<open>
  The fields of \<^verbatim>\<open>self\<close> that the commands read or write. \<^verbatim>\<open>calls\<close> and \<^verbatim>\<open>puts\<close> are the
  zipped (strike, impliedVolatility, lastPrice) rows of the chain; the columns
  \<^verbatim>\<open>self.chain.puts["strike"]\<close> and \<^verbatim>\<open>self.chain.puts["impliedVolatility"]\<close> that \<^verbatim>\<open>call_pick\<close>
  reads are the first and second components of the same rows.
\<close>

record hedge_controller =
  underlying_asset_position :: string
  calls :: "(real \<times> real \<times> real) list"
  puts :: "(real \<times> real \<times> real) list"
  ticker :: string
  current_price :: real
  expiration :: string
  options :: options_dict
  underlying :: real
  side :: string
  amount :: real
  strike :: pyval
  greeks :: greeks_dict

text \<open>
  The collaborators that are not part of the two files: \<^verbatim>\<open>hedge_model.add_hedge_option\<close>
  (the Greeks calculator), \<^verbatim>\<open>hedge_model.calc_hedge\<close> (the weight solver), Python's
  \<^verbatim>\<open>float\<close> on a string (\<open>None\<close> for \<^verbatim>\<open>ValueError\<close>) and Python's \<^verbatim>\<open>+\<close> on two floats, which
  rounds its result (\<^verbatim>\<open>1e16 + 1.0\<close> is \<^verbatim>\<open>1e16\<close>). They are parameters of the model; the two
  functions of \<^verbatim>\<open>hedge_model\<close> are taken to be pure and to return.
\<close>

record env =
  add_hedge_option :: "real \<Rightarrow> real \<Rightarrow> real \<Rightarrow> real \<Rightarrow> int \<Rightarrow> real \<times> real \<times> real"
  calc_hedge :: "real \<Rightarrow> string \<Rightarrow> greeks_dict \<Rightarrow> int \<Rightarrow> real \<times> real \<times> real \<times> bool"
  float_of_str :: "string \<Rightarrow> real option"
  float_add :: "real \<Rightarrow> real \<Rightarrow> real"

text \<open>
  What a command shows or calls, in order: \<open>Console\<close> is \<^verbatim>\<open>console.print\<close>, \<open>Print\<close> is
  \<^verbatim>\<open>print(cost)\<close>, \<open>RichTable\<close> is \<^verbatim>\<open>print_rich_table\<close> with the title, the headers and the
  rows, \<open>GreeksCall\<close> is a call of \<^verbatim>\<open>hedge_model.add_hedge_option\<close> with its five arguments
  (price, implied volatility, strike, time to expiry, side), \<open>HedgeCall\<close> is a call of
  \<^verbatim>\<open>hedge_model.calc_hedge\<close> with its four arguments (amount, side, Greeks, sign) and
  \<open>PlotPayoff\<close> is a call of \<^verbatim>\<open>plot_payoff\<close>. The texts of \<^verbatim>\<open>console.print\<close>:
  \<^item> \<open>Msg_valid_index\<close>: Please use a valid index
  \<^item> \<open>Msg_set_position\<close>: Please set the Underlying Asset Position by using the pick command.
  \<^item> \<open>Msg_only_two\<close>: The functionality only accepts two options. Therefore, please remove
    an option with rmv before continuing.
  \<^item> \<open>Msg_add_options\<close>: Please add Options by using the add command.
  \<^item> \<open>Msg_not_an_option n\<close>: n is not an option.
  \<^item> \<open>Msg_none_selected\<close>: No options have been selected, removing them is not possible
  \<^item> \<open>Msg_first_feasible\<close>: Warning. The selected combination of options yields multiple
    solutions. This is the first feasible solution, possibly not the best one.
  \<^item> \<open>Msg_cannot_solve\<close>: Due to there being multiple solutions (Singular Matrix) the current
    options combination can not be solved. Please input different options.
  \<^item> \<open>Msg_blank\<close>: the empty line.
\<close>

datatype message =
    Msg_valid_index
  | Msg_set_position
  | Msg_only_two
  | Msg_add_options
  | Msg_not_an_option string
  | Msg_none_selected
  | Msg_first_feasible
  | Msg_cannot_solve
  | Msg_blank

datatype cell = CStr string | CNum real

datatype event =
    Console message
  | Print real
  | RichTable string "string list" "cell list list"
  | GreeksCall real real real real int
  | HedgeCall real string greeks_dict int
  | PlotPayoff real "leg option list" real string string
  | UpdateRuntimeChoices

text \<open>
  The result of a command: the controller as the command left it, what it showed and
  called, and the exception that left it, if any. An exception keeps the assignments made
  before it. \<^verbatim>\<open>update_runtime_choices\<close> stores the same two names of slots in the completer
  each time; it is the event \<open>UpdateRuntimeChoices\<close> and no field of the controller.
\<close>

record outcome =
  ctrl :: hedge_controller
  events :: "event list"
  raised :: "py_error option"

text \<open>The parsed arguments; \<open>None\<close> for a command is \<^verbatim>\<open>ns_parser\<close> being \<^verbatim>\<open>None\<close>.\<close>

record add_args =
  put :: bool
  short :: bool
  add_identifier :: nat

record rmv_args =
  rmv_option :: "string list option"
  rmv_all :: bool

text \<open>\<^verbatim>\<open>ns_parser.amount\<close> is the integer default 1000 or the word after \<^verbatim>\<open>-a\<close>.\<close>

datatype amount_arg = Amount_default | Amount_str string

record pick_args =
  pick :: "string list"
  pick_amount :: amount_arg

section \<open>Dictionaries and sequences\<close>

definition has_key :: "('k \<times> 'v) list \<Rightarrow> 'k \<Rightarrow> bool" where
  "has_key d k = (k \<in> set (map fst d))"

text \<open>\<^verbatim>\<open>" ".join(words)\<close>\<close>

fun join_space :: "string list \<Rightarrow> string" where
  "join_space [] = []"
| "join_space [w] = w"
| "join_space (w # v # ws) = w @ '' '' @ join_space (v # ws)"

text \<open>\<^verbatim>\<open>series.iloc[i]\<close>: a negative position counts from the end, \<open>None\<close> is \<^verbatim>\<open>IndexError\<close>.\<close>

definition iloc :: "'a list \<Rightarrow> int \<Rightarrow> 'a option" where
  "iloc xs i =
     (if 0 \<le> i \<and> i < int (length xs) then Some (xs ! nat i)
      else if i < 0 \<and> - int (length xs) \<le> i then Some (xs ! nat (int (length xs) + i))
      else None)"

text \<open>
  \<^verbatim>\<open>==\<close> between an entry of the strike column (a float) and \<^verbatim>\<open>self.strike\<close>: a float and
  a string are never equal.
\<close>

fun strike_eq :: "real \<Rightarrow> pyval \<Rightarrow> bool" where
  "strike_eq k (PyFloat r) = (k = r)"
| "strike_eq k (PyStr s) = False"

text \<open>
  The search loop of \<^verbatim>\<open>call_pick\<close>: \<^verbatim>\<open>index\<close> starts at -1 and becomes the first position
  whose strike equals \<^verbatim>\<open>self.strike\<close>.
\<close>

fun strike_loop :: "real list \<Rightarrow> pyval \<Rightarrow> nat \<Rightarrow> int" where
  "strike_loop [] s i = - 1"
| "strike_loop (k # ks) s i = (if strike_eq k s then int i else strike_loop ks s (Suc i))"

text \<open>\<^verbatim>\<open>float(x)\<close> for \<^verbatim>\<open>self.strike\<close> and for the amount.\<close>

fun py_float :: "env \<Rightarrow> pyval \<Rightarrow> real option" where
  "py_float e (PyFloat r) = Some r"
| "py_float e (PyStr s) = float_of_str e s"

fun amount_float :: "env \<Rightarrow> amount_arg \<Rightarrow> real option" where
  "amount_float e Amount_default = Some 1000"
| "amount_float e (Amount_str s) = float_of_str e s"

fun amount_str :: "amount_arg \<Rightarrow> string" where
  "amount_str Amount_default = ''1000''"
| "amount_str (Amount_str s) = s"

text \<open>
  \<^verbatim>\<open>days = float((date_obj - datetime.now()).days + 1)\<close>, then \<^verbatim>\<open>if days == 0.0: days = 0.01\<close>.
  The argument is the clock's reading \<^verbatim>\<open>(date_obj - datetime.now()).days\<close>, an integer of
  either sign; \<^verbatim>\<open>self.expiration\<close> is the date the chain was fetched for and is taken to parse.
\<close>

definition days_left :: "int \<Rightarrow> real" where
  "days_left td = (let days = real_of_int (td + 1) in if days = 0 then 0.01 else days)"

section \<open>The view\<close>

definition add_and_show_greeks ::
  "env \<Rightarrow> real \<Rightarrow> real \<Rightarrow> real \<Rightarrow> real \<Rightarrow> int \<Rightarrow> (real \<times> real \<times> real) \<times> event list" where
  "add_and_show_greeks e price iv k days sd =
     (case add_hedge_option e price iv k days sd of
        (delta, gamma, vega) \<Rightarrow>
          ((delta, gamma, vega),
           [GreeksCall price iv k days sd,
            RichTable [] [''Positions'']
              [[CStr ''Delta'', CNum delta], [CStr ''Gamma'', CNum gamma],
               [CStr ''Vega'', CNum vega], [CStr ''Implied Volatility'', CNum iv],
               [CStr ''Strike Price'', CNum k]],
            Console Msg_blank]))"

definition weights_table :: "real \<Rightarrow> real \<Rightarrow> real \<Rightarrow> event" where
  "weights_table wa wb ws =
     RichTable ''Neutral Portfolio Weights'' [''Positions'']
       [[CStr ''Weight Option A'', CNum wa], [CStr ''Weight Option B'', CNum wb],
        [CStr ''Weight Shares'', CNum ws]]"

text \<open>
  \<^verbatim>\<open>sum(xs)\<close> on floats: it starts at 0 and adds the elements from the left with the floats'
  addition.
\<close>

definition py_sum :: "env \<Rightarrow> real list \<Rightarrow> real" where
  "py_sum e xs = foldl (float_add e) 0 xs"

definition show_calculated_hedge ::
  "env \<Rightarrow> real \<Rightarrow> string \<Rightarrow> greeks_dict \<Rightarrow> int \<Rightarrow> event list" where
  "show_calculated_hedge e portfolio_option_amount sd g sg =
     (case calc_hedge e portfolio_option_amount sd g sg of
        (weight_option_a, weight_option_b, weight_shares, is_singular) \<Rightarrow>
          HedgeCall portfolio_option_amount sd g sg #
          (if py_sum e [weight_option_a, weight_option_b, weight_shares] \<noteq> 0
           then [weights_table weight_option_a weight_option_b weight_shares, Console Msg_blank]
                @ (if is_singular then [Console Msg_first_feasible] else [])
           else [Console Msg_cannot_solve]))"

section \<open>The controller\<close>

text \<open>
  The constructor. \<^verbatim>\<open>PICK_CHOICES\<close> reads \<^verbatim>\<open>self.calls[0]\<close>, which raises on a chain with no
  calls.
\<close>

definition init_controller ::
  "string \<Rightarrow> string \<Rightarrow> (real \<times> real \<times> real) list \<Rightarrow> (real \<times> real \<times> real) list \<Rightarrow> real
     \<Rightarrow> py_error + hedge_controller" where
  "init_controller tk ex chain_calls chain_puts price =
     (if chain_calls = [] then Inl IndexError
      else Inr \<lparr>underlying_asset_position = [],
                calls = chain_calls, puts = chain_puts,
                ticker = tk, current_price = price, expiration = ex,
                options = [(''Portfolio'', None), (''Option A'', None), (''Option B'', None)],
                underlying = 0, side = [], amount = 0, strike = PyFloat 0,
                greeks = [(''Portfolio'', []), (''Option A'', []), (''Option B'', [])]\<rparr>)"

text \<open>The rows of the positions table: one per slot of \<^verbatim>\<open>self.options\<close> that is not empty.\<close>

fun positions_rows :: "options_dict \<Rightarrow> cell list list" where
  "positions_rows [] = []"
| "positions_rows ((n, None) # xs) = positions_rows xs"
| "positions_rows ((n, Some v) # xs) =
     [CStr (leg_type v), CStr (if leg_sign v = 1 then ''Long'' else ''Short''),
      CNum (leg_strike v), CNum (leg_implied_volatility v)] # positions_rows xs"

definition positions_table :: "options_dict \<Rightarrow> event" where
  "positions_table opts =
     RichTable ''Current Option Positions'' [''Type'', ''Hold'', ''Strike'', ''Implied Volatility'']
       (positions_rows opts)"

text \<open>
  \<^verbatim>\<open>"Delta" in self.greeks["Option A"] and "Delta" in self.greeks["Option B"]\<close>; the second
  dictionary is read only when the first test holds.
\<close>

definition both_delta :: "greeks_dict \<Rightarrow> py_error + bool" where
  "both_delta g =
     (case map_of g ''Option A'' of
        None \<Rightarrow> Inl KeyError
      | Some ga \<Rightarrow>
          if has_key ga ''Delta''
          then (case map_of g ''Option B'' of
                  None \<Rightarrow> Inl KeyError
                | Some gb \<Rightarrow> Inr (has_key gb ''Delta''))
          else Inr False)"

text \<open>\<^verbatim>\<open>not self.options["Option A"] and not self.options["Option B"]\<close>\<close>

definition no_legs :: "options_dict \<Rightarrow> py_error + bool" where
  "no_legs opts =
     (case map_of opts ''Option A'' of
        None \<Rightarrow> Inl KeyError
      | Some (Some a) \<Rightarrow> Inr False
      | Some None \<Rightarrow>
          (case map_of opts ''Option B'' of
             None \<Rightarrow> Inl KeyError
           | Some (Some b) \<Rightarrow> Inr False
           | Some None \<Rightarrow> Inr True))"

text \<open>\<^verbatim>\<open>self.options["Option A"] or self.options["Option B"]\<close>\<close>

definition any_leg :: "options_dict \<Rightarrow> py_error + bool" where
  "any_leg opts =
     (case map_of opts ''Option A'' of
        None \<Rightarrow> Inl KeyError
      | Some (Some a) \<Rightarrow> Inr True
      | Some None \<Rightarrow>
          (case map_of opts ''Option B'' of
             None \<Rightarrow> Inl KeyError
           | Some (Some b) \<Rightarrow> Inr True
           | Some None \<Rightarrow> Inr False))"

text \<open>
  The assignment of a triple to \<^verbatim>\<open>self.greeks[name]["Delta"]\<close>, \<^verbatim>\<open>["Gamma"]\<close>, \<^verbatim>\<open>["Vega"]\<close>.
\<close>

definition set_greeks :: "string \<Rightarrow> real \<times> real \<times> real \<Rightarrow> greeks_dict \<Rightarrow> py_error + greeks_dict" where
  "set_greeks name r g =
     (case r of (delta, gamma, vega) \<Rightarrow>
        (case map_of g name of
           None \<Rightarrow> Inl KeyError
         | Some entry \<Rightarrow>
             Inr (AList.update name
                    (AList.update ''Vega'' vega
                      (AList.update ''Gamma'' gamma (AList.update ''Delta'' delta entry))) g)))"

text \<open>
  The part of \<^verbatim>\<open>call_add\<close> after a free slot was found: the leg is stored in the slot, its
  Greeks are computed and shown and stored, the positions are listed, the weights are
  solved when both slots have a Delta. The events start with the \<^verbatim>\<open>print(cost)\<close> that
  \<^verbatim>\<open>call_add\<close> makes before it looks for the slot.
\<close>

definition add_to_slot ::
  "env \<Rightarrow> hedge_controller \<Rightarrow> string \<Rightarrow> leg \<Rightarrow> real \<Rightarrow> int \<Rightarrow> outcome" where
  "add_to_slot e c slot option days sd =
     (let c1 = c\<lparr>options := AList.update slot (Some option) (options c)\<rparr>
      in case add_and_show_greeks e (current_price c1) (leg_implied_volatility option)
                (leg_strike option) (days / 365) sd of
           (r, shown) \<Rightarrow>
             (case set_greeks slot r (greeks c1) of
                Inl err \<Rightarrow> \<lparr>ctrl = c1, events = Print (leg_cost option) # shown, raised = Some err\<rparr>
              | Inr g \<Rightarrow>
                  (let c2 = c1\<lparr>greeks := g\<rparr>;
                       listed = Print (leg_cost option) # shown @ [positions_table (options c2)]
                   in case both_delta (greeks c2) of
                        Inl err \<Rightarrow> \<lparr>ctrl = c2, events = listed, raised = Some err\<rparr>
                      | Inr True \<Rightarrow>
                          \<lparr>ctrl = c2,
                           events = listed
                             @ show_calculated_hedge e (amount c2) (leg_type option) (greeks c2)
                                 (leg_sign option)
                             @ [UpdateRuntimeChoices, Console Msg_blank],
                           raised = None\<rparr>
                      | Inr False \<Rightarrow>
                          \<lparr>ctrl = c2, events = listed @ [UpdateRuntimeChoices, Console Msg_blank],
                           raised = None\<rparr>)))"

text \<open>
  The head of \<^verbatim>\<open>call_add\<close>: the option type and the sign from the flags, the list the
  identifier indexes, the dictionary \<^verbatim>\<open>option\<close> built from the chosen row, and the side given to
  the Greeks calculator (1 for a call, -1 for a put).
\<close>

definition add_opt_type :: "add_args \<Rightarrow> string" where
  "add_opt_type a = (if put a then ''Put'' else ''Call'')"

definition add_sign :: "add_args \<Rightarrow> int" where
  "add_sign a = (if short a then - 1 else 1)"

definition add_options_list :: "hedge_controller \<Rightarrow> add_args \<Rightarrow> (real \<times> real \<times> real) list" where
  "add_options_list c a = (if put a then puts c else calls c)"

definition add_option :: "hedge_controller \<Rightarrow> add_args \<Rightarrow> leg" where
  "add_option c a =
     (case add_options_list c a ! add_identifier a of
        (k, implied_vol, cst) \<Rightarrow>
          \<lparr>leg_type = add_opt_type a, leg_sign = add_sign a, leg_strike = k,
           leg_implied_volatility = implied_vol, leg_cost = cst\<rparr>)"

definition add_side :: "add_args \<Rightarrow> int" where
  "add_side a = (if add_opt_type a = ''Call'' then 1 else - 1)"

definition call_add :: "env \<Rightarrow> hedge_controller \<Rightarrow> int \<Rightarrow> add_args option \<Rightarrow> outcome" where
  "call_add e c td ns =
     (case ns of
        None \<Rightarrow> \<lparr>ctrl = c, events = [Console Msg_valid_index], raised = None\<rparr>
      | Some a \<Rightarrow>
          (case map_of (greeks c) ''Portfolio'' of
             None \<Rightarrow> \<lparr>ctrl = c, events = [], raised = Some KeyError\<rparr>
           | Some pg \<Rightarrow>
               if pg = [] then \<lparr>ctrl = c, events = [Console Msg_set_position], raised = None\<rparr>
               else if add_identifier a < length (add_options_list c a)
               then
                 (let option = add_option c a;
                      sd = add_side a;
                      days = days_left td
                  in case map_of (greeks c) ''Option A'' of
                       None \<Rightarrow>
                         \<lparr>ctrl = c, events = [Print (leg_cost option)], raised = Some KeyError\<rparr>
                     | Some ga \<Rightarrow>
                         if \<not> has_key ga ''Delta''
                         then add_to_slot e c ''Option A'' option days sd
                         else
                           (case map_of (greeks c) ''Option B'' of
                              None \<Rightarrow>
                                \<lparr>ctrl = c, events = [Print (leg_cost option)],
                                 raised = Some KeyError\<rparr>
                            | Some gb \<Rightarrow>
                                if \<not> has_key gb ''Delta''
                                then add_to_slot e c ''Option B'' option days sd
                                else \<lparr>ctrl = c,
                                      events = [Print (leg_cost option), Console Msg_only_two],
                                      raised = None\<rparr>))
               else \<lparr>ctrl = c, events = [], raised = None\<rparr>))"

text \<open>
  The end of \<^verbatim>\<open>call_rmv\<close>: the positions are listed when a slot still holds a leg, and the
  empty line is printed.
\<close>

definition rmv_listing :: "hedge_controller \<Rightarrow> event list \<Rightarrow> outcome" where
  "rmv_listing c1 shown =
     (case any_leg (options c1) of
        Inl err \<Rightarrow> \<lparr>ctrl = c1, events = shown, raised = Some err\<rparr>
      | Inr True \<Rightarrow>
          \<lparr>ctrl = c1, events = shown @ [positions_table (options c1), Console Msg_blank],
           raised = None\<rparr>
      | Inr False \<Rightarrow> \<lparr>ctrl = c1, events = shown @ [Console Msg_blank], raised = None\<rparr>)"

definition call_rmv :: "hedge_controller \<Rightarrow> rmv_args option \<Rightarrow> outcome" where
  "call_rmv c ns =
     (case ns of
        None \<Rightarrow> \<lparr>ctrl = c, events = [Console Msg_none_selected], raised = None\<rparr>
      | Some a \<Rightarrow>
          (case no_legs (options c) of
             Inl err \<Rightarrow> \<lparr>ctrl = c, events = [], raised = Some err\<rparr>
           | Inr True \<Rightarrow> \<lparr>ctrl = c, events = [Console Msg_add_options], raised = None\<rparr>
           | Inr False \<Rightarrow>
               if rmv_all a
               then rmv_listing (c\<lparr>options := [(''Option A'', None), (''Option B'', None)]\<rparr>) []
               else
                 (case rmv_option a of
                    None \<Rightarrow> \<lparr>ctrl = c, events = [], raised = Some TypeError\<rparr>
                  | Some ws \<Rightarrow>
                      (let option_name = join_space ws
                       in if has_key (options c) option_name
                          then rmv_listing
                                 (c\<lparr>options := AList.update option_name None (options c),
                                    greeks := AList.update option_name [] (greeks c)\<rparr>)
                                 [UpdateRuntimeChoices]
                          else rmv_listing c [Console (Msg_not_an_option option_name)]))))"

text \<open>
  The head of \<^verbatim>\<open>call_pick\<close>: the three words of \<^verbatim>\<open>ns_parser.pick\<close> are the strike, the
  underlying's side and the option side; the position text, \<^verbatim>\<open>self.underlying\<close> and
  \<^verbatim>\<open>self.side\<close> are assigned first.
\<close>

definition pick_side :: "pick_args \<Rightarrow> int" where
  "pick_side a = (if pick a ! 2 = ''Put'' then - 1 else 1)"

definition pick_position :: "hedge_controller \<Rightarrow> pick_args \<Rightarrow> hedge_controller" where
  "pick_position c a =
     c\<lparr>underlying_asset_position :=
         pick a ! 1 @ '' '' @ pick a ! 2 @ '' '' @ amount_str (pick_amount a) @ '' @ '' @ pick a ! 0,
       underlying := (if pick a ! 1 = ''Short'' then - 1 else 1),
       side := (if pick a ! 2 = ''Put'' then ''Put'' else ''Call'')\<rparr>"

text \<open>
  The lookup of the implied volatility: the search loop over the strikes of the chosen side
  of the chain, then \<^verbatim>\<open>.iloc[index]\<close> on its implied volatilities.
\<close>

definition pick_implied_volatility :: "hedge_controller \<Rightarrow> int \<Rightarrow> real option" where
  "pick_implied_volatility c sd =
     (let rows = (if sd = - 1 then puts c else calls c);
          index = strike_loop (map fst rows) (strike c) 0
      in iloc (map (\<lambda>row. fst (snd row)) rows) index)"

definition call_pick :: "env \<Rightarrow> hedge_controller \<Rightarrow> int \<Rightarrow> pick_args option \<Rightarrow> outcome" where
  "call_pick e c td ns =
     (case ns of
        None \<Rightarrow> \<lparr>ctrl = c, events = [], raised = None\<rparr>
      | Some a \<Rightarrow>
          if length (pick a) \<noteq> 3 then \<lparr>ctrl = c, events = [], raised = Some ValueError\<rparr>
          else
            (case amount_float e (pick_amount a) of
               None \<Rightarrow> \<lparr>ctrl = pick_position c a, events = [], raised = Some ValueError\<rparr>
             | Some am \<Rightarrow>
                 (let c2 = (pick_position c a)\<lparr>amount := am, strike := PyStr (pick a ! 0)\<rparr>;
                      days = days_left td
                  in case pick_implied_volatility c2 (pick_side a) of
                       None \<Rightarrow> \<lparr>ctrl = c2, events = [], raised = Some IndexError\<rparr>
                     | Some implied_vol \<Rightarrow>
                         (case py_float e (strike c2) of
                            None \<Rightarrow> \<lparr>ctrl = c2, events = [], raised = Some ValueError\<rparr>
                          | Some k \<Rightarrow>
                              (case set_greeks ''Portfolio''
                                      (add_hedge_option e (current_price c2) implied_vol k
                                         (days / 365) (pick_side a))
                                      (greeks c2) of
                                 Inl err \<Rightarrow>
                                   \<lparr>ctrl = c2,
                                    events = [GreeksCall (current_price c2) implied_vol k
                                                (days / 365) (pick_side a)],
                                    raised = Some err\<rparr>
                               | Inr g \<Rightarrow>
                                   \<lparr>ctrl = c2\<lparr>greeks := g\<rparr>,
                                    events = [GreeksCall (current_price c2) implied_vol k
                                                (days / 365) (pick_side a)],
                                    raised = None\<rparr>)))))"

definition call_sop :: "env \<Rightarrow> hedge_controller \<Rightarrow> unit option \<Rightarrow> outcome" where
  "call_sop e c ns =
     (case ns of
        None \<Rightarrow> \<lparr>ctrl = c, events = [], raised = None\<rparr>
      | Some u \<Rightarrow>
          (case no_legs (options c) of
             Inl err \<Rightarrow> \<lparr>ctrl = c, events = [], raised = Some err\<rparr>
           | Inr True \<Rightarrow> \<lparr>ctrl = c, events = [Console Msg_add_options], raised = None\<rparr>
           | Inr False \<Rightarrow>
               (case both_delta (greeks c) of
                  Inl err \<Rightarrow>
                    \<lparr>ctrl = c, events = [positions_table (options c)], raised = Some err\<rparr>
                | Inr False \<Rightarrow>
                    \<lparr>ctrl = c, events = [positions_table (options c), Console Msg_blank],
                     raised = None\<rparr>
                | Inr True \<Rightarrow>
                    (case map_of (options c) ''Option A'' of
                       Some (Some la) \<Rightarrow>
                         \<lparr>ctrl = c,
                          events = positions_table (options c)
                            # show_calculated_hedge e (amount c) (leg_type la) (greeks c) (leg_sign la)
                            @ [Console Msg_blank],
                          raised = None\<rparr>
                     | _ \<Rightarrow>
                         \<lparr>ctrl = c, events = [positions_table (options c)],
                          raised = Some KeyError\<rparr>))))"

definition call_plot :: "hedge_controller \<Rightarrow> unit option \<Rightarrow> outcome" where
  "call_plot c ns =
     (case ns of
        None \<Rightarrow> \<lparr>ctrl = c, events = [], raised = None\<rparr>
      | Some u \<Rightarrow>
          (case map_of (options c) ''Option A'' of
             None \<Rightarrow> \<lparr>ctrl = c, events = [], raised = Some KeyError\<rparr>
           | Some oa \<Rightarrow>
               (case map_of (options c) ''Option B'' of
                  None \<Rightarrow> \<lparr>ctrl = c, events = [], raised = Some KeyError\<rparr>
                | Some ob \<Rightarrow>
                    \<lparr>ctrl = c,
                     events = [PlotPayoff (current_price c) [oa, ob] (underlying c) (ticker c)
                                 (expiration c)],
                     raised = None\<rparr>)))"

section \<open>Sessions\<close>

datatype command =
    Pick int "pick_args option"
  | Add int "add_args option"
  | Rmv "rmv_args option"
  | Sop "unit option"
  | Plot "unit option"

fun exec :: "env \<Rightarrow> hedge_controller \<Rightarrow> command \<Rightarrow> outcome" where
  "exec e c (Pick td ns) = call_pick e c td ns"
| "exec e c (Add td ns) = call_add e c td ns"
| "exec e c (Rmv ns) = call_rmv c ns"
| "exec e c (Sop ns) = call_sop e c ns"
| "exec e c (Plot ns) = call_plot c ns"

text \<open>A session runs its commands in order on the same controller, up to the first exception.\<close>

fun run :: "env \<Rightarrow> hedge_controller \<Rightarrow> command list \<Rightarrow> outcome" where
  "run e c [] = \<lparr>ctrl = c, events = [], raised = None\<rparr>"
| "run e c (x # xs) =
     (let o1 = exec e c x
      in case raised o1 of
           Some err \<Rightarrow> o1
         | None \<Rightarrow> (let o2 = run e (ctrl o1) xs in o2\<lparr>events := events o1 @ events o2\<rparr>))"

section \<open>Notions used in the statements\<close>

text \<open>A slot's Greeks are present: \<^verbatim>\<open>"Delta" in self.greeks[slot]\<close>.\<close>

definition delta_recorded :: "greeks_dict \<Rightarrow> string \<Rightarrow> bool" where
  "delta_recorded g slot = (case map_of g slot of None \<Rightarrow> False | Some ge \<Rightarrow> has_key ge ''Delta'')"

text \<open>The calls of the weight solver among the events of a command.\<close>

fun is_hedge_call :: "event \<Rightarrow> bool" where
  "is_hedge_call (HedgeCall a sd g sg) = True"
| "is_hedge_call ev = False"

definition hedge_calls :: "event list \<Rightarrow> event list" where
  "hedge_calls evs = filter is_hedge_call evs"

text \<open>The calls of the Greeks calculator, and the time to expiry each was given.\<close>

fun is_greeks_call :: "event \<Rightarrow> bool" where
  "is_greeks_call (GreeksCall p iv k t sd) = True"
| "is_greeks_call ev = False"

definition greeks_calls :: "event list \<Rightarrow> event list" where
  "greeks_calls evs = filter is_greeks_call evs"

fun greeks_call_times :: "event list \<Rightarrow> real list" where
  "greeks_call_times [] = []"
| "greeks_call_times (GreeksCall p iv k t sd # evs) = t # greeks_call_times evs"
| "greeks_call_times (ev # evs) = greeks_call_times evs"

definition times_positive :: "event list \<Rightarrow> bool" where
  "times_positive evs = list_all (\<lambda>t. 0 < t) (greeks_call_times evs)"

text \<open>
  A slot holds a leg. Every leg has its Greeks: the property of a controller that each of
  the two slots that holds a leg has a Delta recorded.
\<close>

definition slot_leg :: "hedge_controller \<Rightarrow> string \<Rightarrow> bool" where
  "slot_leg c slot = (case map_of (options c) slot of Some (Some l) \<Rightarrow> True | _ \<Rightarrow> False)"

definition legs_have_greeks :: "hedge_controller \<Rightarrow> bool" where
  "legs_have_greeks c =
     ((slot_leg c ''Option A'' \<longrightarrow> delta_recorded (greeks c) ''Option A'') \<and>
      (slot_leg c ''Option B'' \<longrightarrow> delta_recorded (greeks c) ''Option B''))"

text \<open>
  The Greeks match the legs: each of the two slots holds a leg exactly when it has a Delta
  recorded.
\<close>

definition greeks_match_legs :: "hedge_controller \<Rightarrow> bool" where
  "greeks_match_legs c =
     ((slot_leg c ''Option A'' \<longleftrightarrow> delta_recorded (greeks c) ''Option A'') \<and>
      (slot_leg c ''Option B'' \<longleftrightarrow> delta_recorded (greeks c) ''Option B''))"

section \<open>A session used as the concrete instance\<close>

text \<open>
  A chain of three calls (strikes 100, 105, 110) and two puts (strikes 100, 105), the spot
  at 102, and stand-ins for the calculator and the solver.
\<close>

definition example_env :: env where
  "example_env =
     \<lparr>add_hedge_option = (\<lambda>p iv k t sd. (real_of_int sd * iv, iv * t, k)),
      calc_hedge = (\<lambda>a sd g sg. (1, 2, 3, False)),
      float_of_str = (\<lambda>s. if s = ''100'' then Some 100 else if s = ''999'' then Some 999 else None),
      float_add = (\<lambda>x y. x + y)\<rparr>"

text \<open>
  The same with a solver that returns the weights 1e16, 1.0 and -1e16, and an addition that
  rounds \<^verbatim>\<open>1e16 + 1.0\<close> to \<^verbatim>\<open>1e16\<close> as the floats do.
\<close>

definition rounding_env :: env where
  "rounding_env =
     example_env
       \<lparr>calc_hedge := (\<lambda>a sd g sg. (10000000000000000, 1, - 10000000000000000, False)),
        float_add := (\<lambda>x y. if x = 10000000000000000 \<and> y = 1 then 10000000000000000 else x + y)\<rparr>"

definition example_controller :: hedge_controller where
  "example_controller =
     \<lparr>underlying_asset_position = [],
      calls = [(100, 0.2, 5), (105, 0.25, 3), (110, 0.3, 2)], puts = [(100, 0.3, 1), (105, 0.4, 2)],
      ticker = ''X'', current_price = 102, expiration = ''2030-01-18'',
      options = [(''Portfolio'', None), (''Option A'', None), (''Option B'', None)],
      underlying = 0, side = [], amount = 0, strike = PyFloat 0,
      greeks = [(''Portfolio'', []), (''Option A'', []), (''Option B'', [])]\<rparr>"

definition pick_100_long_put :: "pick_args option" where
  "pick_100_long_put = Some \<lparr>pick = [''100'', ''Long'', ''Put''], pick_amount = Amount_default\<rparr>"

definition pick_999_long_put :: "pick_args option" where
  "pick_999_long_put = Some \<lparr>pick = [''999'', ''Long'', ''Put''], pick_amount = Amount_default\<rparr>"

definition pick_100_short_call :: "pick_args option" where
  "pick_100_short_call = Some \<lparr>pick = [''100'', ''Short'', ''Call''], pick_amount = Amount_str ''100''\<rparr>"

definition add_call_long_0 :: "add_args option" where
  "add_call_long_0 = Some \<lparr>put = False, short = False, add_identifier = 0\<rparr>"

definition add_call_long_1 :: "add_args option" where
  "add_call_long_1 = Some \<lparr>put = False, short = False, add_identifier = 1\<rparr>"

definition add_put_short_1 :: "add_args option" where
  "add_put_short_1 = Some \<lparr>put = True, short = True, add_identifier = 1\<rparr>"

definition add_put_long_2 :: "add_args option" where
  "add_put_long_2 = Some \<lparr>put = True, short = False, add_identifier = 2\<rparr>"

definition rmv_everything :: "rmv_args option" where
  "rmv_everything = Some \<lparr>rmv_option = None, rmv_all = True\<rparr>"

definition rmv_option_a :: "rmv_args option" where
  "rmv_option_a = Some \<lparr>rmv_option = Some [''Option'', ''A''], rmv_all = False\<rparr>"

text \<open>The controller after a pick, after a pick and one add, and after a pick and two adds.\<close>

definition picked_controller :: hedge_controller where
  "picked_controller = ctrl (call_pick example_env example_controller 10 pick_100_long_put)"

definition one_leg_controller :: hedge_controller where
  "one_leg_controller = ctrl (call_add example_env picked_controller 10 add_call_long_0)"

definition two_leg_controller :: hedge_controller where
  "two_leg_controller = ctrl (call_add example_env one_leg_controller 10 add_put_short_1)"

text \<open>
  The controller after \<^verbatim>\<open>rmv Option A\<close> on the two legs (Option B alone is held), and after
  \<^verbatim>\<open>rmv -a\<close> on the two legs.
\<close>

definition option_b_controller :: hedge_controller where
  "option_b_controller = ctrl (call_rmv two_leg_controller rmv_option_a)"

definition all_removed_controller :: hedge_controller where
  "all_removed_controller = ctrl (call_rmv two_leg_controller rmv_everything)"

text \<open>The controller after a pick, one add and \<^verbatim>\<open>rmv -a\<close>.\<close>

definition one_removed_controller :: hedge_controller where
  "one_removed_controller = ctrl (call_rmv one_leg_controller rmv_everything)"

section \<open>Dictionaries\<close>

lemma map_of_update_other: "k' \<noteq> k \<Longrightarrow> map_of (AList.update k v al) k' = map_of al k'"
  by (simp add: update_conv')

lemma map_of_update_same: "map_of (AList.update k v al) k = Some v"
  by (simp add: update_conv')

lemma keys_update_present:
  "map_of al k = Some v' \<Longrightarrow> map fst (AList.update k v al) = map fst al"
  by (induction al) (auto split: if_splits)

lemma set_greeks_Inr:
  "set_greeks name (d, g, v) gs = Inr gs' \<longleftrightarrow>
     (\<exists>old. map_of gs name = Some old \<and>
        gs' = AList.update name
                (AList.update ''Vega'' v (AList.update ''Gamma'' g (AList.update ''Delta'' d old))) gs)"
  by (auto simp: set_greeks_def split: option.splits)

lemma set_greeks_Inl:
  "set_greeks name r gs = Inl err \<longleftrightarrow> map_of gs name = None \<and> err = KeyError"
  by (auto simp: set_greeks_def split: option.splits prod.splits)

lemma set_greeks_other:
  "set_greeks slot r g = Inr g' \<Longrightarrow> slot' \<noteq> slot \<Longrightarrow> map_of g' slot' = map_of g slot'"
  by (cases r) (auto simp: set_greeks_Inr map_of_update_other)

lemma both_delta_True:
  "both_delta g = Inr True \<longleftrightarrow> delta_recorded g ''Option A'' \<and> delta_recorded g ''Option B''"
  by (auto simp: both_delta_def delta_recorded_def split: option.splits)

lemma no_legs_update_a:
  "no_legs (AList.update ''Option A'' (Some l) opts) = Inr False"
  by (simp add: no_legs_def update_conv')

lemma no_legs_update_b:
  "map_of opts ''Option A'' = Some oa \<Longrightarrow>
     no_legs (AList.update ''Option B'' (Some l) opts) = Inr False"
  by (simp add: no_legs_def update_conv' split: option.splits)

section \<open>The events of the view\<close>

lemma show_calculated_hedge_events:
  "show_calculated_hedge e a sd g sg =
     (case calc_hedge e a sd g sg of
        (wa, wb, ws, sing) \<Rightarrow>
          HedgeCall a sd g sg #
          (if float_add e (float_add e (float_add e 0 wa) wb) ws = 0 then [Console Msg_cannot_solve]
           else weights_table wa wb ws # Console Msg_blank #
                (if sing then [Console Msg_first_feasible] else [])))"
  by (simp add: show_calculated_hedge_def py_sum_def split: prod.splits)

lemma hedge_calls_simps [simp]:
  "hedge_calls [] = []"
  "hedge_calls (ev # evs) = (if is_hedge_call ev then ev # hedge_calls evs else hedge_calls evs)"
  "hedge_calls (evs @ evs') = hedge_calls evs @ hedge_calls evs'"
  by (simp_all add: hedge_calls_def)

lemma hedge_call_mem:
  "HedgeCall a sd g sg \<in> set evs \<longleftrightarrow> HedgeCall a sd g sg \<in> set (hedge_calls evs)"
  by (simp add: hedge_calls_def)

lemma hedge_calls_show [simp]:
  "hedge_calls (show_calculated_hedge e a sd g sg) = [HedgeCall a sd g sg]"
  by (simp add: show_calculated_hedge_def weights_table_def split: prod.splits)

lemma hedge_calls_greeks_shown [simp]:
  "add_and_show_greeks e p iv k t s = (r, shown) \<Longrightarrow> hedge_calls shown = []"
  by (auto simp: add_and_show_greeks_def split: prod.splits)

lemma greeks_calls_simps [simp]:
  "greeks_calls [] = []"
  "greeks_calls (ev # evs) = (if is_greeks_call ev then ev # greeks_calls evs else greeks_calls evs)"
  "greeks_calls (evs @ evs') = greeks_calls evs @ greeks_calls evs'"
  by (simp_all add: greeks_calls_def)

lemma greeks_call_mem:
  "GreeksCall p iv k t sd \<in> set evs \<longleftrightarrow> GreeksCall p iv k t sd \<in> set (greeks_calls evs)"
  by (simp add: greeks_calls_def)

lemma greeks_calls_show [simp]: "greeks_calls (show_calculated_hedge e a sd g sg) = []"
  by (simp add: show_calculated_hedge_def weights_table_def split: prod.splits)

lemma greeks_calls_shown [simp]:
  "add_and_show_greeks e p iv k t s = (r, shown) \<Longrightarrow> greeks_calls shown = [GreeksCall p iv k t s]"
  by (auto simp: add_and_show_greeks_def split: prod.splits)

lemma add_and_show_greeks_result:
  "add_and_show_greeks e p iv k t s = (r, shown) \<Longrightarrow> r = add_hedge_option e p iv k t s"
  by (auto simp: add_and_show_greeks_def split: prod.splits)

lemma greeks_call_times_filter: "greeks_call_times (greeks_calls evs) = greeks_call_times evs"
  by (induction evs rule: greeks_call_times.induct) simp_all

lemma guidance_not_in_show:
  "Console Msg_add_options \<notin> set (show_calculated_hedge e a sd g sg)"
  by (simp add: show_calculated_hedge_events weights_table_def split: prod.splits)

lemma choices_not_in_show:
  "UpdateRuntimeChoices \<notin> set (show_calculated_hedge e a sd g sg)"
  by (simp add: show_calculated_hedge_events weights_table_def split: prod.splits)

section \<open>Storing a leg in a slot\<close>

lemma add_to_slot_options:
  "options (ctrl (add_to_slot e c slot opt days s)) = AList.update slot (Some opt) (options c)"
  by (simp add: add_to_slot_def Let_def split: prod.splits sum.splits bool.splits)

lemma add_to_slot_greeks:
  "greeks (ctrl (add_to_slot e c slot opt days s)) =
     (case set_greeks slot
             (add_hedge_option e (current_price c) (leg_implied_volatility opt) (leg_strike opt)
                (days / 365) s)
             (greeks c) of
        Inl err \<Rightarrow> greeks c
      | Inr g \<Rightarrow> g)"
  by (auto simp: add_to_slot_def Let_def dest: add_and_show_greeks_result
      split: prod.splits sum.splits bool.splits)

lemma add_to_slot_amount: "amount (ctrl (add_to_slot e c slot opt days s)) = amount c"
  by (simp add: add_to_slot_def Let_def split: prod.splits sum.splits bool.splits)

lemma add_to_slot_greeks_calls:
  "greeks_calls (events (add_to_slot e c slot opt days s)) =
     [GreeksCall (current_price c) (leg_implied_volatility opt) (leg_strike opt) (days / 365) s]"
  by (simp add: add_to_slot_def Let_def positions_table_def
      split: prod.splits sum.splits bool.splits)

lemma add_to_slot_times:
  "greeks_call_times (events (add_to_slot e c slot opt days s)) = [days / 365]"
  using greeks_call_times_filter[of "events (add_to_slot e c slot opt days s)"]
  by (simp add: add_to_slot_greeks_calls)

lemma add_to_slot_hedge_calls:
  "hedge_calls (events (add_to_slot e c slot opt days s)) =
     (if both_delta (greeks (ctrl (add_to_slot e c slot opt days s))) = Inr True
         \<and> raised (add_to_slot e c slot opt days s) = None
      then [HedgeCall (amount c) (leg_type opt) (greeks (ctrl (add_to_slot e c slot opt days s)))
              (leg_sign opt)]
      else [])"
  by (simp add: add_to_slot_def Let_def positions_table_def
      split: prod.splits sum.splits bool.splits)

lemma add_to_slot_hedge_mem:
  "HedgeCall a sd g sg \<in> set (events (add_to_slot e c slot opt days s)) \<Longrightarrow>
     g = greeks (ctrl (add_to_slot e c slot opt days s)) \<and> both_delta g = Inr True"
  by (simp add: hedge_call_mem add_to_slot_hedge_calls split: if_splits)

lemma add_to_slot_other_delta:
  "slot' \<noteq> slot \<Longrightarrow>
     delta_recorded (greeks (ctrl (add_to_slot e c slot opt days s))) slot'
       = delta_recorded (greeks c) slot'"
  by (auto simp: add_to_slot_greeks delta_recorded_def dest: set_greeks_other split: sum.splits)

lemma add_to_slot_delta:
  "map_of (greeks c) slot = Some ge \<Longrightarrow>
     delta_recorded (greeks (ctrl (add_to_slot e c slot opt days s))) slot"
  by (cases "add_hedge_option e (current_price c) (leg_implied_volatility opt) (leg_strike opt)
               (days / 365) s")
     (simp add: add_to_slot_greeks set_greeks_def delta_recorded_def has_key_def update_conv'
        update_keys)

lemma add_to_slot_slot_leg:
  "slot' \<noteq> slot \<Longrightarrow> slot_leg (ctrl (add_to_slot e c slot opt days s)) slot' = slot_leg c slot'"
  by (simp add: slot_leg_def add_to_slot_options map_of_update_other)

lemma add_to_slot_stores:
  assumes "map_of (greeks c) slot = Some ge"
    and "add_hedge_option e (current_price c) (leg_implied_volatility opt) (leg_strike opt)
           (days / 365) s = (d, g, v)"
  shows "greeks (ctrl (add_to_slot e c slot opt days s))
           = AList.update slot
               (AList.update ''Vega'' v (AList.update ''Gamma'' g (AList.update ''Delta'' d ge)))
               (greeks c)"
  using assms by (simp add: add_to_slot_greeks set_greeks_def)

lemma add_to_slot_solves:
  "map_of (greeks c) slot = Some ge \<Longrightarrow>
   both_delta (greeks (ctrl (add_to_slot e c slot opt days s))) = Inr True \<Longrightarrow>
     hedge_calls (events (add_to_slot e c slot opt days s))
       = [HedgeCall (amount c) (leg_type opt) (greeks (ctrl (add_to_slot e c slot opt days s)))
            (leg_sign opt)]"
  by (simp add: add_to_slot_def Let_def positions_table_def set_greeks_def
      split: prod.splits sum.splits bool.splits)

lemma add_option_fields [simp]:
  "leg_type (add_option c a) = add_opt_type a"
  "leg_sign (add_option c a) = add_sign a"
  by (simp_all add: add_option_def split: prod.splits)

lemma add_option_short [simp]:
  "leg_strike (add_option c (a\<lparr>short := s\<rparr>)) = leg_strike (add_option c a)"
  "leg_implied_volatility (add_option c (a\<lparr>short := s\<rparr>)) = leg_implied_volatility (add_option c a)"
  "leg_cost (add_option c (a\<lparr>short := s\<rparr>)) = leg_cost (add_option c a)"
  "add_options_list c (a\<lparr>short := s\<rparr>) = add_options_list c a"
  "add_side (a\<lparr>short := s\<rparr>) = add_side a"
  "add_opt_type (a\<lparr>short := s\<rparr>) = add_opt_type a"
  by (simp_all add: add_option_def add_options_list_def add_side_def add_opt_type_def
      split: prod.splits)

section \<open>Case analysis of the commands\<close>

lemma call_add_cases [case_names parse_failed no_portfolio not_picked out_of_range no_slot_a stored_a no_slot_b stored_b full]:
  assumes "ns = None \<Longrightarrow> P \<lparr>ctrl = c, events = [Console Msg_valid_index], raised = None\<rparr>"
    and "\<And>a. ns = Some a \<Longrightarrow> map_of (greeks c) ''Portfolio'' = None \<Longrightarrow>
           P \<lparr>ctrl = c, events = [], raised = Some KeyError\<rparr>"
    and "\<And>a. ns = Some a \<Longrightarrow> map_of (greeks c) ''Portfolio'' = Some [] \<Longrightarrow>
           P \<lparr>ctrl = c, events = [Console Msg_set_position], raised = None\<rparr>"
    and "\<And>a pg. ns = Some a \<Longrightarrow> map_of (greeks c) ''Portfolio'' = Some pg \<Longrightarrow> pg \<noteq> [] \<Longrightarrow>
           \<not> add_identifier a < length (add_options_list c a) \<Longrightarrow>
           P \<lparr>ctrl = c, events = [], raised = None\<rparr>"
    and "\<And>a pg. ns = Some a \<Longrightarrow> map_of (greeks c) ''Portfolio'' = Some pg \<Longrightarrow> pg \<noteq> [] \<Longrightarrow>
           add_identifier a < length (add_options_list c a) \<Longrightarrow>
           map_of (greeks c) ''Option A'' = None \<Longrightarrow>
           P \<lparr>ctrl = c, events = [Print (leg_cost (add_option c a))], raised = Some KeyError\<rparr>"
    and "\<And>a pg ga. ns = Some a \<Longrightarrow> map_of (greeks c) ''Portfolio'' = Some pg \<Longrightarrow> pg \<noteq> [] \<Longrightarrow>
           add_identifier a < length (add_options_list c a) \<Longrightarrow>
           map_of (greeks c) ''Option A'' = Some ga \<Longrightarrow> \<not> has_key ga ''Delta'' \<Longrightarrow>
           P (add_to_slot e c ''Option A'' (add_option c a) (days_left td) (add_side a))"
    and "\<And>a pg ga. ns = Some a \<Longrightarrow> map_of (greeks c) ''Portfolio'' = Some pg \<Longrightarrow> pg \<noteq> [] \<Longrightarrow>
           add_identifier a < length (add_options_list c a) \<Longrightarrow>
           map_of (greeks c) ''Option A'' = Some ga \<Longrightarrow> has_key ga ''Delta'' \<Longrightarrow>
           map_of (greeks c) ''Option B'' = None \<Longrightarrow>
           P \<lparr>ctrl = c, events = [Print (leg_cost (add_option c a))], raised = Some KeyError\<rparr>"
    and "\<And>a pg ga gb. ns = Some a \<Longrightarrow> map_of (greeks c) ''Portfolio'' = Some pg \<Longrightarrow> pg \<noteq> [] \<Longrightarrow>
           add_identifier a < length (add_options_list c a) \<Longrightarrow>
           map_of (greeks c) ''Option A'' = Some ga \<Longrightarrow> has_key ga ''Delta'' \<Longrightarrow>
           map_of (greeks c) ''Option B'' = Some gb \<Longrightarrow> \<not> has_key gb ''Delta'' \<Longrightarrow>
           P (add_to_slot e c ''Option B'' (add_option c a) (days_left td) (add_side a))"
    and "\<And>a pg ga gb. ns = Some a \<Longrightarrow> map_of (greeks c) ''Portfolio'' = Some pg \<Longrightarrow> pg \<noteq> [] \<Longrightarrow>
           add_identifier a < length (add_options_list c a) \<Longrightarrow>
           map_of (greeks c) ''Option A'' = Some ga \<Longrightarrow> has_key ga ''Delta'' \<Longrightarrow>
           map_of (greeks c) ''Option B'' = Some gb \<Longrightarrow> has_key gb ''Delta'' \<Longrightarrow>
           P \<lparr>ctrl = c, events = [Print (leg_cost (add_option c a)), Console Msg_only_two],
              raised = None\<rparr>"
  shows "P (call_add e c td ns)"
proof (cases ns)
  case None
  then show ?thesis using assms(1) by (simp add: call_add_def)
next
  case (Some a)
  show ?thesis
  proof (cases "map_of (greeks c) ''Portfolio''")
    case None
    then show ?thesis using assms(2)[OF Some] Some by (simp add: call_add_def)
  next
    case pg: (Some pg)
    show ?thesis
    proof (cases "pg = []")
      case True
      then show ?thesis using assms(3)[OF Some] Some pg by (simp add: call_add_def)
    next
      case False
      show ?thesis
      proof (cases "add_identifier a < length (add_options_list c a)")
        case oor: False
        then show ?thesis using assms(4)[OF Some pg False] Some pg False
          by (simp add: call_add_def)
      next
        case inr: True
        note pre = Some pg False inr
        show ?thesis
        proof (cases "map_of (greeks c) ''Option A''")
          case None
          then show ?thesis using assms(5)[OF pre] pre
            by (simp add: call_add_def Let_def)
        next
          case ga: (Some ga)
          show ?thesis
          proof (cases "has_key ga ''Delta''")
            case False
            then show ?thesis using assms(6)[OF pre ga] pre ga
              by (simp add: call_add_def Let_def)
          next
            case hA: True
            show ?thesis
            proof (cases "map_of (greeks c) ''Option B''")
              case None
              then show ?thesis using assms(7)[OF pre ga hA] pre ga hA
                by (simp add: call_add_def Let_def)
            next
              case gb: (Some gb)
              show ?thesis
              proof (cases "has_key gb ''Delta''")
                case False
                then show ?thesis using assms(8)[OF pre ga hA gb] pre ga hA gb
                  by (simp add: call_add_def Let_def)
              next
                case True
                then show ?thesis using assms(9)[OF pre ga hA gb] pre ga hA gb
                  by (simp add: call_add_def Let_def)
              qed
            qed
          qed
        qed
      qed
    qed
  qed
qed

lemma call_sop_cases [case_names parse_failed key_error no_legs delta_error listed no_leg_a solved]:
  assumes "ns = None \<Longrightarrow> P \<lparr>ctrl = c, events = [], raised = None\<rparr>"
    and "\<And>err. ns \<noteq> None \<Longrightarrow> no_legs (options c) = Inl err \<Longrightarrow>
           P \<lparr>ctrl = c, events = [], raised = Some err\<rparr>"
    and "ns \<noteq> None \<Longrightarrow> no_legs (options c) = Inr True \<Longrightarrow>
           P \<lparr>ctrl = c, events = [Console Msg_add_options], raised = None\<rparr>"
    and "\<And>err. ns \<noteq> None \<Longrightarrow> no_legs (options c) = Inr False \<Longrightarrow>
           both_delta (greeks c) = Inl err \<Longrightarrow>
           P \<lparr>ctrl = c, events = [positions_table (options c)], raised = Some err\<rparr>"
    and "ns \<noteq> None \<Longrightarrow> no_legs (options c) = Inr False \<Longrightarrow> both_delta (greeks c) = Inr False \<Longrightarrow>
           P \<lparr>ctrl = c, events = [positions_table (options c), Console Msg_blank], raised = None\<rparr>"
    and "ns \<noteq> None \<Longrightarrow> no_legs (options c) = Inr False \<Longrightarrow> both_delta (greeks c) = Inr True \<Longrightarrow>
           map_of (options c) ''Option A'' = Some None \<Longrightarrow>
           P \<lparr>ctrl = c, events = [positions_table (options c)], raised = Some KeyError\<rparr>"
    and "\<And>la. ns \<noteq> None \<Longrightarrow> no_legs (options c) = Inr False \<Longrightarrow>
           both_delta (greeks c) = Inr True \<Longrightarrow>
           map_of (options c) ''Option A'' = Some (Some la) \<Longrightarrow>
           P \<lparr>ctrl = c,
              events = positions_table (options c)
                # show_calculated_hedge e (amount c) (leg_type la) (greeks c) (leg_sign la)
                @ [Console Msg_blank],
              raised = None\<rparr>"
  shows "P (call_sop e c ns)"
proof (cases ns)
  case None
  then show ?thesis using assms(1) by (simp add: call_sop_def)
next
  case (Some u)
  then have ns: "ns \<noteq> None" by simp
  show ?thesis
  proof (cases "no_legs (options c)")
    case (Inl err)
    then show ?thesis using assms(2)[OF ns] Some by (simp add: call_sop_def)
  next
    case (Inr b)
    show ?thesis
    proof (cases b)
      case True
      then show ?thesis using assms(3)[OF ns] Some Inr by (simp add: call_sop_def)
    next
      case False
      with Inr have nl: "no_legs (options c) = Inr False" by simp
      show ?thesis
      proof (cases "both_delta (greeks c)")
        case (Inl err)
        then show ?thesis using assms(4)[OF ns nl] Some nl by (simp add: call_sop_def)
      next
        case bd: (Inr b')
        show ?thesis
        proof (cases b')
          case False
          then show ?thesis using assms(5)[OF ns nl] Some nl bd by (simp add: call_sop_def)
        next
          case True
          with bd have bd': "both_delta (greeks c) = Inr True" by simp
          have "map_of (options c) ''Option A'' \<noteq> None"
            using nl by (auto simp: no_legs_def split: option.splits)
          then obtain oa where oa: "map_of (options c) ''Option A'' = Some oa" by auto
          show ?thesis
          proof (cases oa)
            case None
            then show ?thesis using assms(6)[OF ns nl bd'] Some nl bd' oa
              by (simp add: call_sop_def)
          next
            case (Some la)
            then show ?thesis using assms(7)[OF ns nl bd'] \<open>ns = Some u\<close> nl bd' oa
              by (simp add: call_sop_def)
          qed
        qed
      qed
    qed
  qed
qed

lemma call_pick_cases [case_names parse_failed unpack amount_error index_error strike_error key_error stored]:
  assumes "ns = None \<Longrightarrow> P \<lparr>ctrl = c, events = [], raised = None\<rparr>"
    and "\<And>a. ns = Some a \<Longrightarrow> length (pick a) \<noteq> 3 \<Longrightarrow>
           P \<lparr>ctrl = c, events = [], raised = Some ValueError\<rparr>"
    and "\<And>a. ns = Some a \<Longrightarrow> length (pick a) = 3 \<Longrightarrow> amount_float e (pick_amount a) = None \<Longrightarrow>
           P \<lparr>ctrl = pick_position c a, events = [], raised = Some ValueError\<rparr>"
    and "\<And>a am c2. ns = Some a \<Longrightarrow> length (pick a) = 3 \<Longrightarrow>
           amount_float e (pick_amount a) = Some am \<Longrightarrow>
           c2 = (pick_position c a)\<lparr>amount := am, strike := PyStr (pick a ! 0)\<rparr> \<Longrightarrow>
           pick_implied_volatility c2 (pick_side a) = None \<Longrightarrow>
           P \<lparr>ctrl = c2, events = [], raised = Some IndexError\<rparr>"
    and "\<And>a am c2 iv. ns = Some a \<Longrightarrow> length (pick a) = 3 \<Longrightarrow>
           amount_float e (pick_amount a) = Some am \<Longrightarrow>
           c2 = (pick_position c a)\<lparr>amount := am, strike := PyStr (pick a ! 0)\<rparr> \<Longrightarrow>
           pick_implied_volatility c2 (pick_side a) = Some iv \<Longrightarrow>
           float_of_str e (pick a ! 0) = None \<Longrightarrow>
           P \<lparr>ctrl = c2, events = [], raised = Some ValueError\<rparr>"
    and "\<And>a am c2 iv k. ns = Some a \<Longrightarrow> length (pick a) = 3 \<Longrightarrow>
           amount_float e (pick_amount a) = Some am \<Longrightarrow>
           c2 = (pick_position c a)\<lparr>amount := am, strike := PyStr (pick a ! 0)\<rparr> \<Longrightarrow>
           pick_implied_volatility c2 (pick_side a) = Some iv \<Longrightarrow>
           float_of_str e (pick a ! 0) = Some k \<Longrightarrow>
           map_of (greeks c) ''Portfolio'' = None \<Longrightarrow>
           P \<lparr>ctrl = c2,
              events = [GreeksCall (current_price c) iv k (days_left td / 365) (pick_side a)],
              raised = Some KeyError\<rparr>"
    and "\<And>a am c2 iv k old delta gamma vega. ns = Some a \<Longrightarrow> length (pick a) = 3 \<Longrightarrow>
           amount_float e (pick_amount a) = Some am \<Longrightarrow>
           c2 = (pick_position c a)\<lparr>amount := am, strike := PyStr (pick a ! 0)\<rparr> \<Longrightarrow>
           pick_implied_volatility c2 (pick_side a) = Some iv \<Longrightarrow>
           float_of_str e (pick a ! 0) = Some k \<Longrightarrow>
           map_of (greeks c) ''Portfolio'' = Some old \<Longrightarrow>
           add_hedge_option e (current_price c) iv k (days_left td / 365) (pick_side a)
             = (delta, gamma, vega) \<Longrightarrow>
           P \<lparr>ctrl = c2\<lparr>greeks := AList.update ''Portfolio''
                          (AList.update ''Vega'' vega
                            (AList.update ''Gamma'' gamma (AList.update ''Delta'' delta old)))
                          (greeks c)\<rparr>,
              events = [GreeksCall (current_price c) iv k (days_left td / 365) (pick_side a)],
              raised = None\<rparr>"
  shows "P (call_pick e c td ns)"
proof (cases ns)
  case None
  then show ?thesis using assms(1) by (simp add: call_pick_def)
next
  case (Some a)
  show ?thesis
  proof (cases "length (pick a) = 3")
    case False
    then show ?thesis using assms(2)[OF Some] Some by (simp add: call_pick_def)
  next
    case len: True
    show ?thesis
    proof (cases "amount_float e (pick_amount a)")
      case None
      then show ?thesis using assms(3)[OF Some len] Some len by (simp add: call_pick_def)
    next
      case am: (Some am)
      define c2 where "c2 = (pick_position c a)\<lparr>amount := am, strike := PyStr (pick a ! 0)\<rparr>"
      have c2_fields: "greeks c2 = greeks c" "current_price c2 = current_price c"
        "strike c2 = PyStr (pick a ! 0)"
        by (simp_all add: c2_def pick_position_def)
      note pre = Some len am c2_def
      show ?thesis
      proof (cases "pick_implied_volatility c2 (pick_side a)")
        case None
        then show ?thesis using assms(4)[OF pre] pre
          by (simp add: call_pick_def Let_def)
      next
        case iv: (Some iv)
        show ?thesis
        proof (cases "float_of_str e (pick a ! 0)")
          case None
          then show ?thesis using assms(5)[OF pre iv] Some len am iv c2_fields
            by (simp add: call_pick_def Let_def flip: c2_def)
        next
          case k: (Some k)
          obtain delta gamma vega where
            r: "add_hedge_option e (current_price c) iv k (days_left td / 365) (pick_side a)
                  = (delta, gamma, vega)"
            by (cases "add_hedge_option e (current_price c) iv k (days_left td / 365) (pick_side a)")
          show ?thesis
          proof (cases "map_of (greeks c) ''Portfolio''")
            case None
            then show ?thesis using assms(6)[OF pre iv k] Some len am iv k c2_fields
              by (simp add: call_pick_def Let_def set_greeks_def flip: c2_def split: prod.splits)
          next
            case old: (Some old)
            then show ?thesis using assms(7)[OF pre iv k old r] Some len am iv k r c2_fields
              by (simp add: call_pick_def Let_def set_greeks_def flip: c2_def)
          qed
        qed
      qed
    qed
  qed
qed

lemma rmv_listing_ctrl [simp]: "ctrl (rmv_listing c1 shown) = c1"
  by (simp add: rmv_listing_def split: sum.splits bool.splits)

lemma call_rmv_cases [case_names parse_failed key_error no_legs all no_name named unknown]:
  assumes "ns = None \<Longrightarrow> P \<lparr>ctrl = c, events = [Console Msg_none_selected], raised = None\<rparr>"
    and "\<And>a err. ns = Some a \<Longrightarrow> no_legs (options c) = Inl err \<Longrightarrow>
           P \<lparr>ctrl = c, events = [], raised = Some err\<rparr>"
    and "\<And>a. ns = Some a \<Longrightarrow> no_legs (options c) = Inr True \<Longrightarrow>
           P \<lparr>ctrl = c, events = [Console Msg_add_options], raised = None\<rparr>"
    and "\<And>a. ns = Some a \<Longrightarrow> no_legs (options c) = Inr False \<Longrightarrow> rmv_all a \<Longrightarrow>
           P (rmv_listing (c\<lparr>options := [(''Option A'', None), (''Option B'', None)]\<rparr>) [])"
    and "\<And>a. ns = Some a \<Longrightarrow> no_legs (options c) = Inr False \<Longrightarrow> \<not> rmv_all a \<Longrightarrow>
           rmv_option a = None \<Longrightarrow> P \<lparr>ctrl = c, events = [], raised = Some TypeError\<rparr>"
    and "\<And>a ws. ns = Some a \<Longrightarrow> no_legs (options c) = Inr False \<Longrightarrow> \<not> rmv_all a \<Longrightarrow>
           rmv_option a = Some ws \<Longrightarrow> has_key (options c) (join_space ws) \<Longrightarrow>
           P (rmv_listing
                (c\<lparr>options := AList.update (join_space ws) None (options c),
                   greeks := AList.update (join_space ws) [] (greeks c)\<rparr>)
                [UpdateRuntimeChoices])"
    and "\<And>a ws. ns = Some a \<Longrightarrow> no_legs (options c) = Inr False \<Longrightarrow> \<not> rmv_all a \<Longrightarrow>
           rmv_option a = Some ws \<Longrightarrow> \<not> has_key (options c) (join_space ws) \<Longrightarrow>
           P (rmv_listing c [Console (Msg_not_an_option (join_space ws))])"
  shows "P (call_rmv c ns)"
proof (cases ns)
  case None
  then show ?thesis using assms(1) by (simp add: call_rmv_def)
next
  case (Some a)
  show ?thesis
  proof (cases "no_legs (options c)")
    case (Inl err)
    then show ?thesis using assms(2)[OF Some] Some by (simp add: call_rmv_def)
  next
    case (Inr b)
    show ?thesis
    proof (cases b)
      case True
      then show ?thesis using assms(3)[OF Some] Some Inr by (simp add: call_rmv_def)
    next
      case False
      with Inr have nl: "no_legs (options c) = Inr False" by simp
      show ?thesis
      proof (cases "rmv_all a")
        case True
        then show ?thesis using assms(4)[OF Some nl] Some nl by (simp add: call_rmv_def)
      next
        case all: False
        show ?thesis
        proof (cases "rmv_option a")
          case None
          then show ?thesis using assms(5)[OF Some nl all] Some nl all by (simp add: call_rmv_def)
        next
          case ws: (Some ws)
          show ?thesis
          proof (cases "has_key (options c) (join_space ws)")
            case True
            then show ?thesis using assms(6)[OF Some nl all ws] Some nl all ws
              by (simp add: call_rmv_def Let_def)
          next
            case False
            then show ?thesis using assms(7)[OF Some nl all ws] Some nl all ws
              by (simp add: call_rmv_def Let_def)
          qed
        qed
      qed
    qed
  qed
qed

section \<open>The concrete session\<close>

lemmas example_defs = example_env_def example_controller_def pick_100_long_put_def
  pick_999_long_put_def pick_100_short_call_def add_call_long_0_def add_put_short_1_def add_put_long_2_def
  rmv_everything_def rmv_option_a_def add_call_long_1_def

lemmas command_defs = call_pick_def pick_position_def pick_side_def pick_implied_volatility_def
  call_add_def add_to_slot_def add_opt_type_def add_sign_def add_options_list_def add_option_def
  add_side_def add_and_show_greeks_def show_calculated_hedge_def py_sum_def weights_table_def
  call_rmv_def rmv_listing_def call_sop_def call_plot_def positions_table_def
  has_key_def both_delta_def no_legs_def any_leg_def days_left_def set_greeks_def iloc_def Let_def

lemma example_controller_init:
  "init_controller ''X'' ''2030-01-18'' [(100, 0.2, 5), (105, 0.25, 3), (110, 0.3, 2)]
     [(100, 0.3, 1), (105, 0.4, 2)] 102 = Inr example_controller"
  by (simp add: init_controller_def example_controller_def)

lemma picked_controller_eq:
  "picked_controller =
     \<lparr>underlying_asset_position = ''Long Put 1000 @ 100'',
      calls = [(100, 0.2, 5), (105, 0.25, 3), (110, 0.3, 2)], puts = [(100, 0.3, 1), (105, 0.4, 2)],
      ticker = ''X'', current_price = 102, expiration = ''2030-01-18'',
      options = [(''Portfolio'', None), (''Option A'', None), (''Option B'', None)],
      underlying = 1, side = ''Put'', amount = 1000, strike = PyStr ''100'',
      greeks = [(''Portfolio'', [(''Delta'', - (2 / 5)), (''Gamma'', 22 / 1825), (''Vega'', 100)]),
                (''Option A'', []), (''Option B'', [])]\<rparr>"
  by (simp add: picked_controller_def example_defs command_defs)

lemma one_leg_controller_eq:
  "one_leg_controller =
     picked_controller
       \<lparr>options := [(''Portfolio'', None),
                    (''Option A'', Some \<lparr>leg_type = ''Call'', leg_sign = 1, leg_strike = 100,
                                         leg_implied_volatility = 1 / 5, leg_cost = 5\<rparr>),
                    (''Option B'', None)],
        greeks := [(''Portfolio'', [(''Delta'', - (2 / 5)), (''Gamma'', 22 / 1825), (''Vega'', 100)]),
                   (''Option A'', [(''Delta'', 1 / 5), (''Gamma'', 11 / 1825), (''Vega'', 100)]),
                   (''Option B'', [])]\<rparr>"
  by (simp add: one_leg_controller_def picked_controller_eq example_defs command_defs)

lemma two_leg_controller_eq:
  "two_leg_controller =
     picked_controller
       \<lparr>options := [(''Portfolio'', None),
                    (''Option A'', Some \<lparr>leg_type = ''Call'', leg_sign = 1, leg_strike = 100,
                                         leg_implied_volatility = 1 / 5, leg_cost = 5\<rparr>),
                    (''Option B'', Some \<lparr>leg_type = ''Put'', leg_sign = - 1, leg_strike = 105,
                                         leg_implied_volatility = 2 / 5, leg_cost = 2\<rparr>)],
        greeks := [(''Portfolio'', [(''Delta'', - (2 / 5)), (''Gamma'', 22 / 1825), (''Vega'', 100)]),
                   (''Option A'', [(''Delta'', 1 / 5), (''Gamma'', 11 / 1825), (''Vega'', 100)]),
                   (''Option B'', [(''Delta'', - (2 / 5)), (''Gamma'', 22 / 1825), (''Vega'', 105)])]\<rparr>"
  by (simp add: two_leg_controller_def one_leg_controller_eq picked_controller_eq example_defs
      command_defs)

lemma option_b_controller_eq:
  "option_b_controller =
     picked_controller
       \<lparr>options := [(''Portfolio'', None), (''Option A'', None),
                    (''Option B'', Some \<lparr>leg_type = ''Put'', leg_sign = - 1, leg_strike = 105,
                                         leg_implied_volatility = 2 / 5, leg_cost = 2\<rparr>)],
        greeks := [(''Portfolio'', [(''Delta'', - (2 / 5)), (''Gamma'', 22 / 1825), (''Vega'', 100)]),
                   (''Option A'', []),
                   (''Option B'', [(''Delta'', - (2 / 5)), (''Gamma'', 22 / 1825), (''Vega'', 105)])]\<rparr>"
  by (simp add: option_b_controller_def two_leg_controller_eq picked_controller_eq example_defs
      command_defs)

lemma pick_ok: "raised (call_pick example_env example_controller 10 pick_100_long_put) = None"
  by (simp add: example_defs command_defs)

lemma add_one_ok: "raised (call_add example_env picked_controller 10 add_call_long_0) = None"
  by (simp add: picked_controller_eq example_defs command_defs)

lemma add_two_ok: "raised (call_add example_env one_leg_controller 10 add_put_short_1) = None"
  by (simp add: one_leg_controller_eq picked_controller_eq example_defs command_defs)

lemma rmv_all_ok: "raised (call_rmv two_leg_controller rmv_everything) = None"
  by (simp add: two_leg_controller_eq picked_controller_eq example_defs command_defs)

lemma one_removed_controller_eq:
  "one_removed_controller =
     picked_controller
       \<lparr>options := [(''Option A'', None), (''Option B'', None)],
        greeks := [(''Portfolio'', [(''Delta'', - (2 / 5)), (''Gamma'', 22 / 1825), (''Vega'', 100)]),
                   (''Option A'', [(''Delta'', 1 / 5), (''Gamma'', 11 / 1825), (''Vega'', 100)]),
                   (''Option B'', [])]\<rparr>"
  by (simp add: one_removed_controller_def one_leg_controller_eq picked_controller_eq example_defs
      command_defs)

lemma rmv_one_ok: "raised (call_rmv one_leg_controller rmv_everything) = None"
  by (simp add: one_leg_controller_eq picked_controller_eq example_defs command_defs)

lemma one_removed_session:
  "ctrl (run example_env example_controller
           [Pick 10 pick_100_long_put, Add 10 add_call_long_0, Rmv rmv_everything])
     = one_removed_controller \<and>
   raised (run example_env example_controller
           [Pick 10 pick_100_long_put, Add 10 add_call_long_0, Rmv rmv_everything]) = None"
  using pick_ok add_one_ok rmv_one_ok
  by (simp add: Let_def one_removed_controller_def one_leg_controller_def picked_controller_def)

lemma example_session:
  "ctrl (run example_env example_controller
           [Pick 10 pick_100_long_put, Add 10 add_call_long_0, Add 10 add_put_short_1,
            Rmv rmv_everything]) = all_removed_controller \<and>
   raised (run example_env example_controller
           [Pick 10 pick_100_long_put, Add 10 add_call_long_0, Add 10 add_put_short_1,
            Rmv rmv_everything]) = None"
  using pick_ok add_one_ok add_two_ok rmv_all_ok
  by (simp add: Let_def all_removed_controller_def two_leg_controller_def one_leg_controller_def
      picked_controller_def)

section \<open>C1: removing every option\<close>

text \<open>
  C1 at a concrete session, run from the constructor's state: after a pick and two adds,
  \<^verbatim>\<open>rmv -a\<close> empties both slots of \<^verbatim>\<open>self.options\<close> and leaves \<^verbatim>\<open>self.greeks\<close> as it was, so
  both slots have Greeks and no leg. From then on add answers that two options are held and
  rmv answers that none is. (\<^verbatim>\<open>rmv Option A\<close> on the same two legs does empty the Greeks of
  Option A.)
\<close>

theorem rmv_all_keeps_greeks:
  "ctrl (run example_env example_controller
           [Pick 10 pick_100_long_put, Add 10 add_call_long_0, Add 10 add_put_short_1,
            Rmv rmv_everything]) = all_removed_controller \<and>
   options all_removed_controller = [(''Option A'', None), (''Option B'', None)] \<and>
   greeks all_removed_controller
     = [(''Portfolio'', [(''Delta'', - (2 / 5)), (''Gamma'', 22 / 1825), (''Vega'', 100)]),
        (''Option A'', [(''Delta'', 1 / 5), (''Gamma'', 11 / 1825), (''Vega'', 100)]),
        (''Option B'', [(''Delta'', - (2 / 5)), (''Gamma'', 22 / 1825), (''Vega'', 105)])] \<and>
   call_add example_env all_removed_controller 10 add_call_long_0
     = \<lparr>ctrl = all_removed_controller, events = [Print 5, Console Msg_only_two], raised = None\<rparr> \<and>
   call_rmv all_removed_controller rmv_option_a
     = \<lparr>ctrl = all_removed_controller, events = [Console Msg_add_options], raised = None\<rparr> \<and>
   greeks option_b_controller
     = [(''Portfolio'', [(''Delta'', - (2 / 5)), (''Gamma'', 22 / 1825), (''Vega'', 100)]),
        (''Option A'', []),
        (''Option B'', [(''Delta'', - (2 / 5)), (''Gamma'', 22 / 1825), (''Vega'', 105)])]"
  using example_session
  by (simp add: all_removed_controller_def option_b_controller_eq two_leg_controller_eq
      picked_controller_eq example_defs command_defs)

section \<open>C2: a pick at a strike that the chain does not list\<close>

text \<open>
  C2 at a concrete session: the puts are listed at 100 and 105 and the pick asks for a put
  at 999. The pick raises nothing and prints nothing; it calls the Greeks calculator with
  the implied volatility 0.4 of the last put (strike 105) and stores the result as the
  Portfolio Greeks.
\<close>

theorem pick_unlisted_strike_uses_last_row:
  "map fst (puts example_controller) = [100, 105] \<and>
   strike_loop (map fst (puts example_controller)) (PyStr ''999'') 0 = - 1 \<and>
   raised (call_pick example_env example_controller 10 pick_999_long_put) = None \<and>
   events (call_pick example_env example_controller 10 pick_999_long_put)
     = [GreeksCall 102 (2 / 5) 999 (11 / 365) (- 1)] \<and>
   map_of (greeks (ctrl (call_pick example_env example_controller 10 pick_999_long_put))) ''Portfolio''
     = Some [(''Delta'', - (2 / 5)), (''Gamma'', 22 / 1825), (''Vega'', 999)]"
  by (simp add: example_defs command_defs)

section \<open>C3: the time to expiry given to the Greeks calculator\<close>

lemma call_add_times:
  "set (greeks_call_times (events (call_add e c td ns))) \<subseteq> {days_left td / 365}"
  by (rule call_add_cases[where P = "\<lambda>out. set (greeks_call_times (events out))
        \<subseteq> {days_left td / 365}"])
     (simp_all add: add_to_slot_times)

lemma call_pick_times:
  "set (greeks_call_times (events (call_pick e c td ns))) \<subseteq> {days_left td / 365}"
  by (rule call_pick_cases[where P = "\<lambda>out. set (greeks_call_times (events out))
        \<subseteq> {days_left td / 365}"])
     simp_all

lemma days_left_positive: "0 < days_left td \<longleftrightarrow> 0 \<le> td + 1"
  by (auto simp: days_left_def Let_def)

lemma times_positive_subset:
  "set (greeks_call_times evs) \<subseteq> {t} \<Longrightarrow> 0 < t \<Longrightarrow> times_positive evs"
  by (auto simp: times_positive_def list_all_iff)

text \<open>
  C3, as the code has it. Every call of the Greeks calculator made by an add or a pick is
  given the day count divided by 365, where a day count of exactly zero is replaced by
  0.01. The value is positive exactly when the day count is zero or more; a negative day
  count is passed on as it is.
\<close>

theorem time_to_expiry_passed:
  "set (greeks_call_times (events (call_add e c td ns))) \<subseteq> {days_left td / 365} \<and>
   set (greeks_call_times (events (call_pick e c td ns'))) \<subseteq> {days_left td / 365} \<and>
   days_left td = (if td + 1 = 0 then 1 / 100 else real_of_int (td + 1)) \<and>
   (0 < days_left td / 365 \<longleftrightarrow> 0 \<le> td + 1) \<and>
   (0 \<le> td + 1 \<longrightarrow>
      times_positive (events (call_add e c td ns)) \<and>
      times_positive (events (call_pick e c td ns')))"
proof -
  have pos: "0 < days_left td / 365 \<longleftrightarrow> 0 \<le> td + 1"
    using days_left_positive[of td] by simp
  have "days_left td = (if td + 1 = 0 then 1 / 100 else real_of_int (td + 1))"
    by (simp add: days_left_def Let_def)
  moreover have "0 \<le> td + 1 \<longrightarrow>
      times_positive (events (call_add e c td ns)) \<and>
      times_positive (events (call_pick e c td ns'))"
    using pos times_positive_subset[OF call_add_times[of e c td ns]]
      times_positive_subset[OF call_pick_times[of e c td ns']]
    by blast
  ultimately show ?thesis
    using pos call_add_times[of e c td ns] call_pick_times[of e c td ns'] by blast
qed

theorem time_to_expiry_passed_witness:
  "greeks_call_times (events (call_pick example_env example_controller (- 1) pick_100_long_put))
     = [1 / 36500] \<and>
   times_positive (events (call_pick example_env example_controller (- 1) pick_100_long_put)) \<and>
   times_positive (events (call_add example_env picked_controller (- 1) add_call_long_0))"
proof -
  have "greeks_call_times (events (call_pick example_env example_controller (- 1) pick_100_long_put))
     = [1 / 36500]"
    by (simp add: example_defs command_defs)
  moreover from time_to_expiry_passed[of example_env picked_controller "- 1" add_call_long_0]
  have "times_positive (events (call_add example_env picked_controller (- 1) add_call_long_0))"
    by simp
  moreover from time_to_expiry_passed[of example_env example_controller "- 1" _ pick_100_long_put]
  have "times_positive (events (call_pick example_env example_controller (- 1) pick_100_long_put))"
    by simp
  ultimately show ?thesis by simp
qed

text \<open>
  C3, as stated, fails: with the expiry three days back the pick and the add call the
  calculator with a negative time to expiry.
\<close>

theorem time_to_expiry_negative:
  "greeks_call_times (events (call_pick example_env example_controller (- 3) pick_100_long_put))
     = [- 2 / 365] \<and>
   \<not> times_positive (events (call_pick example_env example_controller (- 3) pick_100_long_put)) \<and>
   greeks_call_times (events (call_add example_env picked_controller (- 3) add_call_long_0))
     = [- 2 / 365] \<and>
   \<not> times_positive (events (call_add example_env picked_controller (- 3) add_call_long_0))"
  by (simp add: times_positive_def picked_controller_eq example_defs command_defs)

section \<open>C4: what the weight display shows\<close>

text \<open>
  C4. With the three weights and the flag that \<^verbatim>\<open>calc_hedge\<close> returned, the display prints
  the cannot-be-solved message exactly when the sum of the three weights, as
  \<^verbatim>\<open>sum([weight_option_a, weight_option_b, weight_shares])\<close> computes it, is zero. It shows the
  table titled Neutral Portfolio Weights with the three weights, in the rows Weight
  Option A, Weight Option B and Weight Shares, exactly when that sum is not zero, and it
  prints the first-feasible warning exactly when that sum is not zero and the flag is set.
\<close>

theorem show_calculated_hedge_signals:
  assumes "calc_hedge e a sd g sg = (wa, wb, ws, sing)"
  shows "(Console Msg_cannot_solve \<in> set (show_calculated_hedge e a sd g sg)
            \<longleftrightarrow> float_add e (float_add e (float_add e 0 wa) wb) ws = 0) \<and>
         (RichTable ''Neutral Portfolio Weights'' [''Positions'']
            [[CStr ''Weight Option A'', CNum wa], [CStr ''Weight Option B'', CNum wb],
             [CStr ''Weight Shares'', CNum ws]]
            \<in> set (show_calculated_hedge e a sd g sg)
            \<longleftrightarrow> float_add e (float_add e (float_add e 0 wa) wb) ws \<noteq> 0) \<and>
         (Console Msg_first_feasible \<in> set (show_calculated_hedge e a sd g sg)
            \<longleftrightarrow> float_add e (float_add e (float_add e 0 wa) wb) ws \<noteq> 0 \<and> sing)"
  using assms by (auto simp: show_calculated_hedge_events weights_table_def)

theorem show_calculated_hedge_signals_witness:
  "Console Msg_cannot_solve
     \<notin> set (show_calculated_hedge example_env 1000 ''Call'' (greeks two_leg_controller) 1) \<and>
   RichTable ''Neutral Portfolio Weights'' [''Positions'']
     [[CStr ''Weight Option A'', CNum 1], [CStr ''Weight Option B'', CNum 2],
      [CStr ''Weight Shares'', CNum 3]]
     \<in> set (show_calculated_hedge example_env 1000 ''Call'' (greeks two_leg_controller) 1) \<and>
   Console Msg_first_feasible
     \<notin> set (show_calculated_hedge example_env 1000 ''Call'' (greeks two_leg_controller) 1) \<and>
   Console Msg_cannot_solve
     \<in> set (show_calculated_hedge rounding_env 1000 ''Call'' (greeks two_leg_controller) 1) \<and>
   RichTable ''Neutral Portfolio Weights'' [''Positions'']
     [[CStr ''Weight Option A'', CNum 10000000000000000], [CStr ''Weight Option B'', CNum 1],
      [CStr ''Weight Shares'', CNum (- 10000000000000000)]]
     \<notin> set (show_calculated_hedge rounding_env 1000 ''Call'' (greeks two_leg_controller) 1)"
proof -
  have exact: "calc_hedge example_env 1000 ''Call'' (greeks two_leg_controller) 1
                 = (1, 2, 3, False)"
    "float_add example_env (float_add example_env (float_add example_env 0 1) 2) 3 = 6"
    by (simp_all add: example_env_def)
  have rounded: "calc_hedge rounding_env 1000 ''Call'' (greeks two_leg_controller) 1
                   = (10000000000000000, 1, - 10000000000000000, False)"
    "float_add rounding_env
       (float_add rounding_env (float_add rounding_env 0 10000000000000000) 1)
       (- 10000000000000000) = 0"
    by (simp_all add: rounding_env_def)
  from show_calculated_hedge_signals[OF exact(1)] exact(2)
    show_calculated_hedge_signals[OF rounded(1)] rounded(2)
  show ?thesis by simp
qed

section \<open>C5: an add without a pick, or with both slots taken\<close>

lemma call_add_rejected_cases:
  "map_of (greeks c) ''Portfolio'' = Some pg \<and>
   (pg = [] \<or> (delta_recorded (greeks c) ''Option A'' \<and> delta_recorded (greeks c) ''Option B'')) \<longrightarrow>
     ctrl (call_add e c td ns) = c \<and> raised (call_add e c td ns) = None \<and>
     (\<forall>a. ns = Some a \<longrightarrow>
        events (call_add e c td ns) =
          (if pg = [] then [Console Msg_set_position]
           else if add_identifier a < length (add_options_list c a)
           then [Print (leg_cost (add_option c a)), Console Msg_only_two]
           else []))"
  by (rule call_add_cases[where P = "\<lambda>out. map_of (greeks c) ''Portfolio'' = Some pg \<and>
   (pg = [] \<or> (delta_recorded (greeks c) ''Option A'' \<and> delta_recorded (greeks c) ''Option B'')) \<longrightarrow>
     ctrl out = c \<and> raised out = None \<and>
     (\<forall>a. ns = Some a \<longrightarrow>
        events out =
          (if pg = [] then [Console Msg_set_position]
           else if add_identifier a < length (add_options_list c a)
           then [Print (leg_cost (add_option c a)), Console Msg_only_two]
           else []))"])
     (auto simp: delta_recorded_def)

text \<open>
  The state after a refused add, from any state: an add made while the Portfolio Greeks are
  empty, or while a Delta is recorded for Option A and for Option B (the test that
  \<^verbatim>\<open>call_add\<close> makes; it holds whenever both slots hold a leg in a state where every leg has
  its Greeks), leaves the controller as it was and raises nothing. What it prints depends on
  the identifier.
\<close>

theorem call_add_rejected:
  assumes "map_of (greeks c) ''Portfolio'' = Some pg"
    and "pg = [] \<or>
         (delta_recorded (greeks c) ''Option A'' \<and> delta_recorded (greeks c) ''Option B'') \<or>
         (legs_have_greeks c \<and> slot_leg c ''Option A'' \<and> slot_leg c ''Option B'')"
  shows "ctrl (call_add e c td ns) = c \<and> raised (call_add e c td ns) = None \<and>
     (\<forall>a. ns = Some a \<longrightarrow>
        events (call_add e c td ns) =
          (if pg = [] then [Console Msg_set_position]
           else if add_identifier a < length (add_options_list c a)
           then [Print (leg_cost (add_option c a)), Console Msg_only_two]
           else []))"
proof -
  from assms(2) have "pg = [] \<or>
      (delta_recorded (greeks c) ''Option A'' \<and> delta_recorded (greeks c) ''Option B'')"
    by (auto simp: legs_have_greeks_def)
  with assms(1) call_add_rejected_cases[of c pg e td ns] show ?thesis by blast
qed

theorem call_add_rejected_witness:
  "call_add example_env example_controller 10 add_call_long_0
     = \<lparr>ctrl = example_controller, events = [Console Msg_set_position], raised = None\<rparr> \<and>
   call_add example_env two_leg_controller 10 add_call_long_0
     = \<lparr>ctrl = two_leg_controller, events = [Print 5, Console Msg_only_two], raised = None\<rparr>"
proof -
  have p0: "map_of (greeks example_controller) ''Portfolio'' = Some []"
    by (simp add: example_controller_def)
  have p2: "map_of (greeks two_leg_controller) ''Portfolio''
              = Some [(''Delta'', - (2 / 5)), (''Gamma'', 22 / 1825), (''Vega'', 100)]"
    and full: "delta_recorded (greeks two_leg_controller) ''Option A'' \<and>
               delta_recorded (greeks two_leg_controller) ''Option B''"
    by (simp_all add: two_leg_controller_eq picked_controller_eq delta_recorded_def has_key_def)
  have row: "add_identifier \<lparr>put = False, short = False, add_identifier = 0\<rparr>
               < length (add_options_list two_leg_controller
                           \<lparr>put = False, short = False, add_identifier = 0\<rparr>)"
    "leg_cost (add_option two_leg_controller \<lparr>put = False, short = False, add_identifier = 0\<rparr>) = 5"
    by (simp_all add: two_leg_controller_eq picked_controller_eq add_options_list_def add_option_def)
  from call_add_rejected[OF p0, of example_env 10 add_call_long_0]
  have a: "call_add example_env example_controller 10 add_call_long_0
     = \<lparr>ctrl = example_controller, events = [Console Msg_set_position], raised = None\<rparr>"
    by (simp add: add_call_long_0_def)
  from call_add_rejected[OF p2, of example_env 10 add_call_long_0] full row
  have b: "call_add example_env two_leg_controller 10 add_call_long_0
     = \<lparr>ctrl = two_leg_controller, events = [Print 5, Console Msg_only_two], raised = None\<rparr>"
    by (simp add: add_call_long_0_def)
  from a b show ?thesis by simp
qed

text \<open>
  C5 at a concrete session: both slots hold a leg, and the chain has three calls and two
  puts. \<^verbatim>\<open>add --put -i 2\<close> is received by \<^verbatim>\<open>call_add\<close>: the parser checks the identifier against
  the calls, because it looks for the word \<^verbatim>\<open>-p\<close> among the arguments. The identifier is past
  the end of the puts, the test \<^verbatim>\<open>identifier < len(options_list)\<close> has no other branch, and
  the command ends without any message; the state is as it was. The same add spelt
  \<^verbatim>\<open>add -p -i 2\<close> is refused by the parser and prints the valid-index message, and an add
  whose identifier indexes a row prints the only-two-options message.
\<close>

theorem call_add_full_silent:
  "options two_leg_controller
     = [(''Portfolio'', None),
        (''Option A'', Some \<lparr>leg_type = ''Call'', leg_sign = 1, leg_strike = 100,
                             leg_implied_volatility = 1 / 5, leg_cost = 5\<rparr>),
        (''Option B'', Some \<lparr>leg_type = ''Put'', leg_sign = - 1, leg_strike = 105,
                             leg_implied_volatility = 2 / 5, leg_cost = 2\<rparr>)] \<and>
   delta_recorded (greeks two_leg_controller) ''Option A'' \<and>
   delta_recorded (greeks two_leg_controller) ''Option B'' \<and>
   length (calls two_leg_controller) = 3 \<and> length (puts two_leg_controller) = 2 \<and>
   call_add example_env two_leg_controller 10 add_put_long_2
     = \<lparr>ctrl = two_leg_controller, events = [], raised = None\<rparr> \<and>
   call_add example_env two_leg_controller 10 None
     = \<lparr>ctrl = two_leg_controller, events = [Console Msg_valid_index], raised = None\<rparr> \<and>
   call_add example_env two_leg_controller 10 add_call_long_0
     = \<lparr>ctrl = two_leg_controller, events = [Print 5, Console Msg_only_two], raised = None\<rparr>"
  by (simp add: two_leg_controller_eq picked_controller_eq delta_recorded_def example_defs
      command_defs)

section \<open>C6: sop and plot read the session\<close>

lemma call_sop_ctrl: "ctrl (call_sop e c ns) = c"
  by (rule call_sop_cases[where P = "\<lambda>out. ctrl out = c"]) simp_all

lemma call_plot_ctrl: "ctrl (call_plot c ns) = c"
  by (simp add: call_plot_def split: option.splits)

lemma call_sop_no_legs:
  "no_legs (options c) = Inr True \<Longrightarrow>
     call_sop e c (Some ()) = \<lparr>ctrl = c, events = [Console Msg_add_options], raised = None\<rparr>"
  by (simp add: call_sop_def)

lemma call_sop_some_leg:
  "no_legs (options c) = Inr False \<longrightarrow>
     Console Msg_add_options \<notin> set (events (call_sop e c ns)) \<and>
     (ns \<noteq> None \<longrightarrow> positions_table (options c) \<in> set (events (call_sop e c ns)))"
  by (rule call_sop_cases[where P = "\<lambda>out. no_legs (options c) = Inr False \<longrightarrow>
     Console Msg_add_options \<notin> set (events out) \<and>
     (ns \<noteq> None \<longrightarrow> positions_table (options c) \<in> set (events out))"])
     (simp_all add: guidance_not_in_show positions_table_def)

lemma call_plot_renders:
  "map_of (options c) ''Option A'' = Some oa \<Longrightarrow> map_of (options c) ''Option B'' = Some ob \<Longrightarrow>
     call_plot c (Some ())
       = \<lparr>ctrl = c,
          events = [PlotPayoff (current_price c) [oa, ob] (underlying c) (ticker c) (expiration c)],
          raised = None\<rparr>"
  by (simp add: call_plot_def)

lemma call_sop_choices: "UpdateRuntimeChoices \<notin> set (events (call_sop e c ns))"
  by (rule call_sop_cases[where P = "\<lambda>out. UpdateRuntimeChoices \<notin> set (events out)"])
     (simp_all add: choices_not_in_show positions_table_def)

lemma call_plot_choices: "UpdateRuntimeChoices \<notin> set (events (call_plot c ns))"
  by (simp add: call_plot_def split: option.splits)

text \<open>
  C6, as the code has it. sop and plot never change the controller, nor the choices of
  the completer. sop made while neither slot holds a leg prints the request to add options and nothing else. sop made while a
  slot holds a leg lists the positions and does not print that request. plot has no test
  on the legs: whenever both slots exist it calls the payoff renderer with the two slots
  as they are, empty or not.
\<close>

theorem sop_plot_read_only:
  "ctrl (call_sop e c ns) = c \<and> ctrl (call_plot c ns') = c \<and>
   UpdateRuntimeChoices \<notin> set (events (call_sop e c ns)) \<and>
   UpdateRuntimeChoices \<notin> set (events (call_plot c ns')) \<and>
   (no_legs (options c) = Inr True \<longrightarrow>
      call_sop e c (Some ()) = \<lparr>ctrl = c, events = [Console Msg_add_options], raised = None\<rparr>) \<and>
   (no_legs (options c) = Inr False \<longrightarrow>
      Console Msg_add_options \<notin> set (events (call_sop e c ns)) \<and>
      (ns \<noteq> None \<longrightarrow> positions_table (options c) \<in> set (events (call_sop e c ns)))) \<and>
   (map_of (options c) ''Option A'' = Some oa \<and> map_of (options c) ''Option B'' = Some ob \<longrightarrow>
      call_plot c (Some ())
        = \<lparr>ctrl = c,
           events = [PlotPayoff (current_price c) [oa, ob] (underlying c) (ticker c) (expiration c)],
           raised = None\<rparr>)"
  using call_sop_ctrl[of e c ns] call_plot_ctrl[of c ns'] call_sop_no_legs[of c e]
    call_sop_some_leg[of c e ns] call_plot_renders[of c oa ob]
    call_sop_choices[of e c ns] call_plot_choices[of c ns']
  by blast

theorem sop_plot_read_only_witness:
  "call_sop example_env picked_controller (Some ())
     = \<lparr>ctrl = picked_controller, events = [Console Msg_add_options], raised = None\<rparr> \<and>
   ctrl (call_sop example_env two_leg_controller (Some ())) = two_leg_controller \<and>
   Console Msg_add_options \<notin> set (events (call_sop example_env one_leg_controller (Some ()))) \<and>
   call_plot two_leg_controller (Some ())
     = \<lparr>ctrl = two_leg_controller,
        events = [PlotPayoff 102
                    [Some \<lparr>leg_type = ''Call'', leg_sign = 1, leg_strike = 100,
                           leg_implied_volatility = 1 / 5, leg_cost = 5\<rparr>,
                     Some \<lparr>leg_type = ''Put'', leg_sign = - 1, leg_strike = 105,
                           leg_implied_volatility = 2 / 5, leg_cost = 2\<rparr>]
                    1 ''X'' ''2030-01-18''],
        raised = None\<rparr>"
proof -
  have none: "no_legs (options picked_controller) = Inr True"
    and one: "no_legs (options one_leg_controller) = Inr False"
    and a: "map_of (options two_leg_controller) ''Option A''
              = Some (Some \<lparr>leg_type = ''Call'', leg_sign = 1, leg_strike = 100,
                            leg_implied_volatility = 1 / 5, leg_cost = 5\<rparr>)"
    and b: "map_of (options two_leg_controller) ''Option B''
              = Some (Some \<lparr>leg_type = ''Put'', leg_sign = - 1, leg_strike = 105,
                            leg_implied_volatility = 2 / 5, leg_cost = 2\<rparr>)"
    and f: "current_price two_leg_controller = 102" "underlying two_leg_controller = 1"
      "ticker two_leg_controller = ''X''" "expiration two_leg_controller = ''2030-01-18''"
    by (simp_all add: two_leg_controller_eq one_leg_controller_eq picked_controller_eq no_legs_def)
  from sop_plot_read_only[of example_env picked_controller "Some ()"] none
  have 1: "call_sop example_env picked_controller (Some ())
     = \<lparr>ctrl = picked_controller, events = [Console Msg_add_options], raised = None\<rparr>"
    by blast
  from sop_plot_read_only[where e = example_env and c = two_leg_controller and ns = "Some ()"
      and ns' = "Some ()"
      and oa = "Some \<lparr>leg_type = ''Call'', leg_sign = 1, leg_strike = 100,
                       leg_implied_volatility = 1 / 5, leg_cost = 5\<rparr>"
      and ob = "Some \<lparr>leg_type = ''Put'', leg_sign = - 1, leg_strike = 105,
                       leg_implied_volatility = 2 / 5, leg_cost = 2\<rparr>"] a b f
  have 2: "ctrl (call_sop example_env two_leg_controller (Some ())) = two_leg_controller"
    and 4: "call_plot two_leg_controller (Some ())
     = \<lparr>ctrl = two_leg_controller,
        events = [PlotPayoff 102
                    [Some \<lparr>leg_type = ''Call'', leg_sign = 1, leg_strike = 100,
                           leg_implied_volatility = 1 / 5, leg_cost = 5\<rparr>,
                     Some \<lparr>leg_type = ''Put'', leg_sign = - 1, leg_strike = 105,
                           leg_implied_volatility = 2 / 5, leg_cost = 2\<rparr>]
                    1 ''X'' ''2030-01-18''],
        raised = None\<rparr>"
    by simp_all
  from sop_plot_read_only[of example_env one_leg_controller "Some ()"] one
  have 3: "Console Msg_add_options \<notin> set (events (call_sop example_env one_leg_controller (Some ())))"
    by blast
  from 1 2 3 4 show ?thesis by blast
qed

text \<open>
  C6, as stated, fails: with no leg stored plot calls the payoff renderer, and with one
  leg stored sop lists it instead of asking for a second.
\<close>

theorem plot_without_legs_renders:
  "no_legs (options picked_controller) = Inr True \<and>
   call_plot picked_controller (Some ())
     = \<lparr>ctrl = picked_controller,
        events = [PlotPayoff 102 [None, None] 1 ''X'' ''2030-01-18''], raised = None\<rparr> \<and>
   length (positions_rows (options one_leg_controller)) = 1 \<and>
   call_sop example_env one_leg_controller (Some ())
     = \<lparr>ctrl = one_leg_controller,
        events = [RichTable ''Current Option Positions''
                    [''Type'', ''Hold'', ''Strike'', ''Implied Volatility'']
                    [[CStr ''Call'', CStr ''Long'', CNum 100, CNum (1 / 5)]],
                  Console Msg_blank],
        raised = None\<rparr>"
  by (simp add: one_leg_controller_eq picked_controller_eq example_defs command_defs)

section \<open>C7: the weight solver and the legs that are stored\<close>

lemma call_add_hedge_mem:
  "HedgeCall a sd g sg \<in> set (events (call_add e c td ns)) \<longrightarrow>
     g = greeks (ctrl (call_add e c td ns)) \<and> both_delta g = Inr True"
  by (rule call_add_cases[where P = "\<lambda>out. HedgeCall a sd g sg \<in> set (events out) \<longrightarrow>
        g = greeks (ctrl out) \<and> both_delta g = Inr True"])
     (simp_all add: add_to_slot_hedge_mem)

lemma call_sop_hedge_mem:
  "HedgeCall a sd g sg \<in> set (events (call_sop e c ns)) \<longrightarrow>
     g = greeks c \<and> both_delta g = Inr True"
  by (rule call_sop_cases[where P = "\<lambda>out. HedgeCall a sd g sg \<in> set (events out) \<longrightarrow>
        g = greeks c \<and> both_delta g = Inr True"])
     (auto simp: positions_table_def hedge_call_mem)

text \<open>
  The test that guards the solver at its two call sites: in every execution of \<^verbatim>\<open>call_add\<close>
  and of \<^verbatim>\<open>call_sop\<close>, from any state and with any arguments, a call of the weight solver is
  made with the controller's Greeks as they are at that moment, and these hold a Delta for
  Option A and a Delta for Option B. The test reads the Greeks and not the legs.
\<close>

theorem solve_only_with_both_greeks:
  "(HedgeCall a sd g sg \<in> set (events (call_add e c td ns)) \<longrightarrow>
      g = greeks (ctrl (call_add e c td ns)) \<and>
      delta_recorded g ''Option A'' \<and> delta_recorded g ''Option B'') \<and>
   (HedgeCall a sd g sg \<in> set (events (call_sop e c ns')) \<longrightarrow>
      g = greeks c \<and> delta_recorded g ''Option A'' \<and> delta_recorded g ''Option B'')"
  using call_add_hedge_mem[of a sd g sg e c td ns] call_sop_hedge_mem[of a sd g sg e c ns']
  by (simp add: both_delta_True)

theorem solve_only_with_both_greeks_witness:
  "HedgeCall 1000 ''Put'' (greeks two_leg_controller) (- 1)
     \<in> set (events (call_add example_env one_leg_controller 10 add_put_short_1)) \<and>
   HedgeCall 1000 ''Call'' (greeks two_leg_controller) 1
     \<in> set (events (call_sop example_env two_leg_controller (Some ()))) \<and>
   delta_recorded (greeks two_leg_controller) ''Option A'' \<and>
   delta_recorded (greeks two_leg_controller) ''Option B''"
proof -
  have add: "HedgeCall 1000 ''Put'' (greeks two_leg_controller) (- 1)
               \<in> set (events (call_add example_env one_leg_controller 10 add_put_short_1))"
    by (simp add: two_leg_controller_eq one_leg_controller_eq picked_controller_eq example_defs
        command_defs)
  have sop: "HedgeCall 1000 ''Call'' (greeks two_leg_controller) 1
               \<in> set (events (call_sop example_env two_leg_controller (Some ())))"
    by (simp add: two_leg_controller_eq picked_controller_eq example_defs command_defs)
  from solve_only_with_both_greeks[of 1000 "''Put''" "greeks two_leg_controller" "- 1"
      example_env one_leg_controller 10 add_put_short_1] add
  have "delta_recorded (greeks two_leg_controller) ''Option A'' \<and>
        delta_recorded (greeks two_leg_controller) ''Option B''"
    by blast
  with add sop show ?thesis by blast
qed

text \<open>
  C7 at a concrete session, run from the constructor's state: after a pick, one add and
  \<^verbatim>\<open>rmv -a\<close>, both slots of \<^verbatim>\<open>self.options\<close> are empty and Option A still has the Greeks of the
  leg that was removed. The next add stores its leg in Option B, finds a Delta for both
  slots and calls the weight solver: one leg is stored, and the Greeks of Option A that the
  solver receives belong to no leg. (The same add right after the pick, with no Greeks left
  behind, makes no call of the solver.)
\<close>

theorem solver_called_with_one_leg:
  "ctrl (run example_env example_controller
           [Pick 10 pick_100_long_put, Add 10 add_call_long_0, Rmv rmv_everything])
     = one_removed_controller \<and>
   options one_removed_controller = [(''Option A'', None), (''Option B'', None)] \<and>
   raised (call_add example_env one_removed_controller 10 add_call_long_1) = None \<and>
   options (ctrl (call_add example_env one_removed_controller 10 add_call_long_1))
     = [(''Option A'', None),
        (''Option B'', Some \<lparr>leg_type = ''Call'', leg_sign = 1, leg_strike = 105,
                             leg_implied_volatility = 1 / 4, leg_cost = 3\<rparr>)] \<and>
   hedge_calls (events (call_add example_env one_removed_controller 10 add_call_long_1))
     = [HedgeCall 1000 ''Call''
          [(''Portfolio'', [(''Delta'', - (2 / 5)), (''Gamma'', 22 / 1825), (''Vega'', 100)]),
           (''Option A'', [(''Delta'', 1 / 5), (''Gamma'', 11 / 1825), (''Vega'', 100)]),
           (''Option B'', [(''Delta'', 1 / 4), (''Gamma'', 11 / 1460), (''Vega'', 105)])] 1] \<and>
   hedge_calls (events (call_add example_env picked_controller 10 add_call_long_1)) = []"
  using one_removed_session
  by (simp add: one_removed_controller_eq picked_controller_eq example_defs command_defs)

section \<open>C8: a pick writes the Portfolio Greeks and nothing else of the Greeks and legs\<close>

lemma call_pick_options: "options (ctrl (call_pick e c td ns)) = options c"
  by (rule call_pick_cases[where P = "\<lambda>out. options (ctrl out) = options c"])
     (simp_all add: pick_position_def)

lemma call_pick_other_greeks:
  "slot \<noteq> ''Portfolio'' \<Longrightarrow>
     map_of (greeks (ctrl (call_pick e c td ns))) slot = map_of (greeks c) slot"
  by (rule call_pick_cases[where P = "\<lambda>out. map_of (greeks (ctrl out)) slot = map_of (greeks c) slot"])
     (simp_all add: pick_position_def map_of_update_other)

lemma call_pick_keys: "map fst (greeks (ctrl (call_pick e c td ns))) = map fst (greeks c)"
  by (rule call_pick_cases[where P = "\<lambda>out. map fst (greeks (ctrl out)) = map fst (greeks c)"])
     (simp_all add: pick_position_def keys_update_present)

lemma call_pick_portfolio:
  "ns = Some a \<and> raised (call_pick e c td ns) = None \<longrightarrow>
     (\<exists>iv k delta gamma vega old entry.
        events (call_pick e c td ns)
          = [GreeksCall (current_price c) iv k (days_left td / 365) (pick_side a)] \<and>
        add_hedge_option e (current_price c) iv k (days_left td / 365) (pick_side a)
          = (delta, gamma, vega) \<and>
        map_of (greeks c) ''Portfolio'' = Some old \<and>
        map_of (greeks (ctrl (call_pick e c td ns))) ''Portfolio'' = Some entry \<and>
        entry = AList.update ''Vega'' vega
                  (AList.update ''Gamma'' gamma (AList.update ''Delta'' delta old)) \<and>
        map_of entry ''Delta'' = Some delta \<and> map_of entry ''Gamma'' = Some gamma \<and>
        map_of entry ''Vega'' = Some vega)"
  by (rule call_pick_cases[where P = "\<lambda>out. ns = Some a \<and> raised out = None \<longrightarrow>
     (\<exists>iv k delta gamma vega old entry.
        events out = [GreeksCall (current_price c) iv k (days_left td / 365) (pick_side a)] \<and>
        add_hedge_option e (current_price c) iv k (days_left td / 365) (pick_side a)
          = (delta, gamma, vega) \<and>
        map_of (greeks c) ''Portfolio'' = Some old \<and>
        map_of (greeks (ctrl out)) ''Portfolio'' = Some entry \<and>
        entry = AList.update ''Vega'' vega
                  (AList.update ''Gamma'' gamma (AList.update ''Delta'' delta old)) \<and>
        map_of entry ''Delta'' = Some delta \<and> map_of entry ''Gamma'' = Some gamma \<and>
        map_of entry ''Vega'' = Some vega)"])
     (auto simp: update_conv')

lemma call_pick_failed_greeks:
  "raised (call_pick e c td ns) \<noteq> None \<longrightarrow> greeks (ctrl (call_pick e c td ns)) = greeks c"
  by (rule call_pick_cases[where P = "\<lambda>out. raised out \<noteq> None \<longrightarrow> greeks (ctrl out) = greeks c"])
     (simp_all add: pick_position_def)

text \<open>
  C8. Every pick, from any state (so also after legs were added), leaves \<^verbatim>\<open>self.options\<close>
  as it was, leaves the Greeks of every slot other than Portfolio as they were, and keeps
  the slots of \<^verbatim>\<open>self.greeks\<close>. A pick that raises leaves all the Greeks as they were. When
  the pick returns without an exception, it has called the Greeks calculator once and the Portfolio entry holds the Delta, the Gamma and the Vega of
  that call in place of what was recorded before.
\<close>

theorem call_pick_writes_portfolio_only:
  "options (ctrl (call_pick e c td ns)) = options c \<and>
   (\<forall>slot. slot \<noteq> ''Portfolio'' \<longrightarrow>
      map_of (greeks (ctrl (call_pick e c td ns))) slot = map_of (greeks c) slot) \<and>
   map fst (greeks (ctrl (call_pick e c td ns))) = map fst (greeks c) \<and>
   (raised (call_pick e c td ns) \<noteq> None \<longrightarrow> greeks (ctrl (call_pick e c td ns)) = greeks c) \<and>
   (ns = Some a \<and> raised (call_pick e c td ns) = None \<longrightarrow>
     (\<exists>iv k delta gamma vega old entry.
        events (call_pick e c td ns)
          = [GreeksCall (current_price c) iv k (days_left td / 365) (pick_side a)] \<and>
        add_hedge_option e (current_price c) iv k (days_left td / 365) (pick_side a)
          = (delta, gamma, vega) \<and>
        map_of (greeks c) ''Portfolio'' = Some old \<and>
        map_of (greeks (ctrl (call_pick e c td ns))) ''Portfolio'' = Some entry \<and>
        entry = AList.update ''Vega'' vega
                  (AList.update ''Gamma'' gamma (AList.update ''Delta'' delta old)) \<and>
        map_of entry ''Delta'' = Some delta \<and> map_of entry ''Gamma'' = Some gamma \<and>
        map_of entry ''Vega'' = Some vega))"
  using call_pick_options[of e c td ns] call_pick_other_greeks[of _ e c td ns]
    call_pick_keys[of e c td ns] call_pick_portfolio[of ns a e c td]
    call_pick_failed_greeks[of e c td ns]
  by blast

theorem call_pick_writes_portfolio_only_witness:
  "raised (call_pick example_env two_leg_controller 3 pick_100_short_call) = None \<and>
   options (ctrl (call_pick example_env two_leg_controller 3 pick_100_short_call))
     = options two_leg_controller \<and>
   map_of (greeks (ctrl (call_pick example_env two_leg_controller 3 pick_100_short_call))) ''Option A''
     = map_of (greeks two_leg_controller) ''Option A'' \<and>
   map_of (greeks (ctrl (call_pick example_env two_leg_controller 3 pick_100_short_call))) ''Option B''
     = map_of (greeks two_leg_controller) ''Option B'' \<and>
   map_of (greeks (ctrl (call_pick example_env two_leg_controller 3 pick_100_short_call))) ''Portfolio''
     = Some [(''Delta'', 3 / 10), (''Gamma'', 6 / 1825), (''Vega'', 100)]"
proof -
  have ok: "raised (call_pick example_env two_leg_controller 3 pick_100_short_call) = None"
    and pf: "map_of (greeks (ctrl (call_pick example_env two_leg_controller 3 pick_100_short_call)))
               ''Portfolio'' = Some [(''Delta'', 3 / 10), (''Gamma'', 6 / 1825), (''Vega'', 100)]"
    by (simp_all add: two_leg_controller_eq picked_controller_eq
        example_defs command_defs)
  from call_pick_writes_portfolio_only[of example_env two_leg_controller 3 pick_100_short_call]
  have "options (ctrl (call_pick example_env two_leg_controller 3 pick_100_short_call))
          = options two_leg_controller"
    and "\<forall>slot. slot \<noteq> ''Portfolio'' \<longrightarrow>
           map_of (greeks (ctrl (call_pick example_env two_leg_controller 3 pick_100_short_call))) slot
             = map_of (greeks two_leg_controller) slot"
    by blast+
  with ok pf show ?thesis by simp
qed

section \<open>C9: the Greeks of a leg do not depend on its sign\<close>

text \<open>The Greeks after an add and the calls of the calculator, without the sign.\<close>

lemma call_add_greeks_short:
  "greeks (ctrl (call_add e c td (Some (a\<lparr>short := s\<rparr>)))) = greeks (ctrl (call_add e c td (Some a)))"
  by (rule call_add_cases[where P = "\<lambda>out. greeks (ctrl (call_add e c td (Some (a\<lparr>short := s\<rparr>))))
        = greeks (ctrl out)" and ns = "Some a"])
     (simp_all add: call_add_def Let_def add_to_slot_greeks)

lemma call_add_greeks_calls_short:
  "greeks_calls (events (call_add e c td (Some (a\<lparr>short := s\<rparr>))))
     = greeks_calls (events (call_add e c td (Some a)))"
  by (rule call_add_cases[where P = "\<lambda>out. greeks_calls (events (call_add e c td (Some (a\<lparr>short := s\<rparr>))))
        = greeks_calls (events out)" and ns = "Some a"])
     (simp_all add: call_add_def Let_def add_to_slot_greeks_calls)

lemma call_add_greeks_call_side:
  "GreeksCall p iv k t sd \<in> set (events (call_add e c td (Some a))) \<longrightarrow>
     sd = (if put a then - 1 else 1) \<and> p = current_price c \<and> t = days_left td / 365 \<and>
     add_identifier a < length (add_options_list c a) \<and>
     (k, iv, leg_cost (add_option c a)) = add_options_list c a ! add_identifier a"
  by (rule call_add_cases[where P = "\<lambda>out. GreeksCall p iv k t sd \<in> set (events out) \<longrightarrow>
     sd = (if put a then - 1 else 1) \<and> p = current_price c \<and> t = days_left td / 365 \<and>
     add_identifier a < length (add_options_list c a) \<and>
     (k, iv, leg_cost (add_option c a)) = add_options_list c a ! add_identifier a" and ns = "Some a"])
     (auto simp: greeks_call_mem add_to_slot_greeks_calls add_side_def add_opt_type_def
        add_option_def split: prod.splits)

lemma call_add_stores:
  "ctrl (call_add e c td (Some a)) \<noteq> c \<longrightarrow>
     (\<exists>slot ge d g v.
        (slot = ''Option A'' \<or> slot = ''Option B'' \<and> delta_recorded (greeks c) ''Option A'') \<and>
        map_of (greeks c) slot = Some ge \<and> \<not> has_key ge ''Delta'' \<and>
        add_identifier a < length (add_options_list c a) \<and>
        add_hedge_option e (current_price c) (leg_implied_volatility (add_option c a))
          (leg_strike (add_option c a)) (days_left td / 365) (if put a then - 1 else 1) = (d, g, v) \<and>
        options (ctrl (call_add e c td (Some a)))
          = AList.update slot (Some (add_option c a)) (options c) \<and>
        greeks (ctrl (call_add e c td (Some a)))
          = AList.update slot
              (AList.update ''Vega'' v (AList.update ''Gamma'' g (AList.update ''Delta'' d ge)))
              (greeks c))"
proof (rule call_add_cases[where P = "\<lambda>out. ctrl out \<noteq> c \<longrightarrow>
     (\<exists>slot ge d g v.
        (slot = ''Option A'' \<or> slot = ''Option B'' \<and> delta_recorded (greeks c) ''Option A'') \<and>
        map_of (greeks c) slot = Some ge \<and> \<not> has_key ge ''Delta'' \<and>
        add_identifier a < length (add_options_list c a) \<and>
        add_hedge_option e (current_price c) (leg_implied_volatility (add_option c a))
          (leg_strike (add_option c a)) (days_left td / 365) (if put a then - 1 else 1) = (d, g, v) \<and>
        options (ctrl out) = AList.update slot (Some (add_option c a)) (options c) \<and>
        greeks (ctrl out)
          = AList.update slot
              (AList.update ''Vega'' v (AList.update ''Gamma'' g (AList.update ''Delta'' d ge)))
              (greeks c))" and ns = "Some a"], goal_cases)
  case (6 a' pg ga)
  obtain d g v where r: "add_hedge_option e (current_price c) (leg_implied_volatility (add_option c a))
          (leg_strike (add_option c a)) (days_left td / 365) (add_side a) = (d, g, v)"
    by (cases "add_hedge_option e (current_price c) (leg_implied_volatility (add_option c a))
          (leg_strike (add_option c a)) (days_left td / 365) (add_side a)")
  from 6 have a: "a' = a" by simp
  have sd: "add_side a = (if put a then - 1 else 1)"
    by (simp add: add_side_def add_opt_type_def)
  show ?case
    using 6 r add_to_slot_stores[OF 6(5) r] unfolding a sd
    by (intro impI exI[of _ "''Option A''"] exI[of _ ga] exI[of _ d] exI[of _ g] exI[of _ v])
       (simp add: add_to_slot_options)
next
  case (8 a' pg ga gb)
  obtain d g v where r: "add_hedge_option e (current_price c) (leg_implied_volatility (add_option c a))
          (leg_strike (add_option c a)) (days_left td / 365) (add_side a) = (d, g, v)"
    by (cases "add_hedge_option e (current_price c) (leg_implied_volatility (add_option c a))
          (leg_strike (add_option c a)) (days_left td / 365) (add_side a)")
  from 8 have a: "a' = a" by simp
  have sd: "add_side a = (if put a then - 1 else 1)"
    by (simp add: add_side_def add_opt_type_def)
  show ?case
    using 8 r add_to_slot_stores[OF 8(7) r] unfolding a sd
    by (intro impI exI[of _ "''Option B''"] exI[of _ gb] exI[of _ d] exI[of _ g] exI[of _ v])
       (simp add: add_to_slot_options delta_recorded_def)
qed simp_all

text \<open>
  C9. The Greeks that an add stores do not depend on the long/short flag: run from the same
  state with the same arguments but for \<^verbatim>\<open>--short\<close>, \<^verbatim>\<open>call_add\<close> leaves the same
  \<^verbatim>\<open>self.greeks\<close> and makes the same calls of the Greeks calculator. The side given to the
  calculator is -1 for a put and 1 for a call. An add that changes the controller has
  stored the leg in the first slot without a Delta (Option A before Option B), and has
  stored in that slot's Greeks the calculator's result for the spot, the row's implied
  volatility and strike, the time to expiry and that side. The sign (-1 short, 1 long) is a
  field of the stored leg, together with the type, and is no argument of the calculator.
\<close>

theorem call_add_greeks_ignore_sign:
  "greeks (ctrl (call_add e c td (Some (a\<lparr>short := True\<rparr>))))
     = greeks (ctrl (call_add e c td (Some (a\<lparr>short := False\<rparr>)))) \<and>
   greeks_calls (events (call_add e c td (Some (a\<lparr>short := True\<rparr>))))
     = greeks_calls (events (call_add e c td (Some (a\<lparr>short := False\<rparr>)))) \<and>
   (\<forall>p iv k t sd. GreeksCall p iv k t sd \<in> set (events (call_add e c td (Some a))) \<longrightarrow>
      sd = (if put a then - 1 else 1) \<and>
      (k, iv, leg_cost (add_option c a)) = add_options_list c a ! add_identifier a) \<and>
   (ctrl (call_add e c td (Some a)) \<noteq> c \<longrightarrow>
     (\<exists>slot ge d g v.
        (slot = ''Option A'' \<or> slot = ''Option B'' \<and> delta_recorded (greeks c) ''Option A'') \<and>
        map_of (greeks c) slot = Some ge \<and> \<not> has_key ge ''Delta'' \<and>
        add_identifier a < length (add_options_list c a) \<and>
        add_hedge_option e (current_price c) (leg_implied_volatility (add_option c a))
          (leg_strike (add_option c a)) (days_left td / 365) (if put a then - 1 else 1) = (d, g, v) \<and>
        options (ctrl (call_add e c td (Some a)))
          = AList.update slot (Some (add_option c a)) (options c) \<and>
        greeks (ctrl (call_add e c td (Some a)))
          = AList.update slot
              (AList.update ''Vega'' v (AList.update ''Gamma'' g (AList.update ''Delta'' d ge)))
              (greeks c))) \<and>
   leg_sign (add_option c a) = (if short a then - 1 else 1) \<and>
   leg_type (add_option c a) = (if put a then ''Put'' else ''Call'')"
  using call_add_greeks_short[where e = e and c = c and td = td and a = a and s = True]
    call_add_greeks_short[where e = e and c = c and td = td and a = a and s = False]
    call_add_greeks_calls_short[where e = e and c = c and td = td and a = a and s = True]
    call_add_greeks_calls_short[where e = e and c = c and td = td and a = a and s = False]
    call_add_greeks_call_side[where e = e and c = c and td = td and a = a]
    call_add_stores[of e c td a]
  by (simp add: add_sign_def add_opt_type_def)

theorem call_add_greeks_ignore_sign_witness:
  "GreeksCall 102 (2 / 5) 105 (11 / 365) (- 1)
     \<in> set (events (call_add example_env one_leg_controller 10
                      (Some \<lparr>put = True, short = True, add_identifier = 1\<rparr>))) \<and>
   greeks (ctrl (call_add example_env one_leg_controller 10
                   (Some \<lparr>put = True, short = True, add_identifier = 1\<rparr>)))
     = greeks (ctrl (call_add example_env one_leg_controller 10
                       (Some \<lparr>put = True, short = False, add_identifier = 1\<rparr>))) \<and>
   map_of (options (ctrl (call_add example_env one_leg_controller 10
                            (Some \<lparr>put = True, short = True, add_identifier = 1\<rparr>)))) ''Option B''
     = Some (Some \<lparr>leg_type = ''Put'', leg_sign = - 1, leg_strike = 105,
                   leg_implied_volatility = 2 / 5, leg_cost = 2\<rparr>) \<and>
   map_of (options (ctrl (call_add example_env one_leg_controller 10
                            (Some \<lparr>put = True, short = False, add_identifier = 1\<rparr>)))) ''Option B''
     = Some (Some \<lparr>leg_type = ''Put'', leg_sign = 1, leg_strike = 105,
                   leg_implied_volatility = 2 / 5, leg_cost = 2\<rparr>)"
proof -
  have call: "GreeksCall 102 (2 / 5) 105 (11 / 365) (- 1)
     \<in> set (events (call_add example_env one_leg_controller 10
                      (Some \<lparr>put = True, short = True, add_identifier = 1\<rparr>)))"
    by (simp add: one_leg_controller_eq picked_controller_eq example_defs command_defs)
  have legs: "map_of (options (ctrl (call_add example_env one_leg_controller 10
                            (Some \<lparr>put = True, short = True, add_identifier = 1\<rparr>)))) ''Option B''
     = Some (Some \<lparr>leg_type = ''Put'', leg_sign = - 1, leg_strike = 105,
                   leg_implied_volatility = 2 / 5, leg_cost = 2\<rparr>)"
    "map_of (options (ctrl (call_add example_env one_leg_controller 10
                            (Some \<lparr>put = True, short = False, add_identifier = 1\<rparr>)))) ''Option B''
     = Some (Some \<lparr>leg_type = ''Put'', leg_sign = 1, leg_strike = 105,
                   leg_implied_volatility = 2 / 5, leg_cost = 2\<rparr>)"
    by (simp_all add: one_leg_controller_eq picked_controller_eq example_defs command_defs)
  from call_add_greeks_ignore_sign[of example_env one_leg_controller 10
      "\<lparr>put = True, short = True, add_identifier = 1\<rparr>"]
  have "greeks (ctrl (call_add example_env one_leg_controller 10
                   (Some \<lparr>put = True, short = True, add_identifier = 1\<rparr>)))
     = greeks (ctrl (call_add example_env one_leg_controller 10
                       (Some \<lparr>put = True, short = False, add_identifier = 1\<rparr>)))"
    by simp
  with call legs show ?thesis by simp
qed

section \<open>C10: the arguments that add and sop give the solver\<close>

lemma call_add_hedge_calls:
  "hedge_calls (events (call_add e c td (Some a))) = [] \<or>
   hedge_calls (events (call_add e c td (Some a)))
     = [HedgeCall (amount c) (add_opt_type a) (greeks (ctrl (call_add e c td (Some a)))) (add_sign a)]"
  by (rule call_add_cases[where P = "\<lambda>out. hedge_calls (events out) = [] \<or>
        hedge_calls (events out) = [HedgeCall (amount c) (add_opt_type a) (greeks (ctrl out)) (add_sign a)]"
        and ns = "Some a"])
     (simp_all add: add_to_slot_hedge_calls)

lemma call_sop_hedge_calls:
  "hedge_calls (events (call_sop e c ns)) = [] \<or>
   (\<exists>la. map_of (options c) ''Option A'' = Some (Some la) \<and>
      hedge_calls (events (call_sop e c ns))
        = [HedgeCall (amount c) (leg_type la) (greeks c) (leg_sign la)])"
  by (rule call_sop_cases[where P = "\<lambda>out. hedge_calls (events out) = [] \<or>
   (\<exists>la. map_of (options c) ''Option A'' = Some (Some la) \<and>
      hedge_calls (events out) = [HedgeCall (amount c) (leg_type la) (greeks c) (leg_sign la)])"])
     (simp_all add: positions_table_def)

lemma call_sop_solves:
  "no_legs (options c) = Inr False \<Longrightarrow> both_delta (greeks c) = Inr True \<Longrightarrow>
   map_of (options c) ''Option A'' = Some (Some la) \<Longrightarrow>
     hedge_calls (events (call_sop e c (Some ())))
       = [HedgeCall (amount c) (leg_type la) (greeks c) (leg_sign la)]"
  by (simp add: call_sop_def positions_table_def)

lemma call_add_solves:
  "ctrl (call_add e c td (Some a)) \<noteq> c \<and>
   delta_recorded (greeks (ctrl (call_add e c td (Some a)))) ''Option A'' \<and>
   delta_recorded (greeks (ctrl (call_add e c td (Some a)))) ''Option B'' \<longrightarrow>
     hedge_calls (events (call_add e c td (Some a)))
       = [HedgeCall (amount c) (add_opt_type a) (greeks (ctrl (call_add e c td (Some a))))
            (add_sign a)]"
  by (rule call_add_cases[where P = "\<lambda>out. ctrl out \<noteq> c \<and>
   delta_recorded (greeks (ctrl out)) ''Option A'' \<and>
   delta_recorded (greeks (ctrl out)) ''Option B'' \<longrightarrow>
     hedge_calls (events out) = [HedgeCall (amount c) (add_opt_type a) (greeks (ctrl out)) (add_sign a)]"
       and ns = "Some a"])
     (auto simp: add_to_slot_solves both_delta_True)

lemma call_sop_solves_recorded:
  "delta_recorded (greeks c) ''Option A'' \<Longrightarrow> delta_recorded (greeks c) ''Option B'' \<Longrightarrow>
   map_of (options c) ''Option A'' = Some (Some oa) \<Longrightarrow>
     hedge_calls (events (call_sop e c (Some ())))
       = [HedgeCall (amount c) (leg_type oa) (greeks c) (leg_sign oa)]"
  using call_sop_solves[of c oa e] by (simp add: both_delta_True no_legs_def)

text \<open>After an add that stored into a slot and called the solver, sop calls the solver too.\<close>

lemma sop_after_add_to_b:
  assumes "hedge_calls (events (add_to_slot e c ''Option B'' opt days s)) \<noteq> []"
    and "map_of (options c) ''Option A'' = Some (Some la)"
  shows "hedge_calls (events (call_sop e (ctrl (add_to_slot e c ''Option B'' opt days s)) (Some ())))
           = [HedgeCall (amount c) (leg_type la)
                (greeks (ctrl (add_to_slot e c ''Option B'' opt days s))) (leg_sign la)]"
proof -
  let ?c' = "ctrl (add_to_slot e c ''Option B'' opt days s)"
  have bd: "both_delta (greeks ?c') = Inr True"
    using assms(1) by (simp add: add_to_slot_hedge_calls split: if_splits)
  have nl: "no_legs (options ?c') = Inr False"
    using assms(2) by (simp add: add_to_slot_options no_legs_update_b)
  have a: "map_of (options ?c') ''Option A'' = Some (Some la)"
    using assms(2) by (simp add: add_to_slot_options map_of_update_other)
  from call_sop_solves[OF nl bd a, of e] show ?thesis by (simp add: add_to_slot_amount)
qed

lemma sop_after_add_to_a:
  assumes "hedge_calls (events (add_to_slot e c ''Option A'' opt days s)) \<noteq> []"
  shows "hedge_calls (events (call_sop e (ctrl (add_to_slot e c ''Option A'' opt days s)) (Some ())))
           = hedge_calls (events (add_to_slot e c ''Option A'' opt days s))"
proof -
  let ?c' = "ctrl (add_to_slot e c ''Option A'' opt days s)"
  have bd: "both_delta (greeks ?c') = Inr True"
    using assms(1) by (simp add: add_to_slot_hedge_calls split: if_splits)
  have nl: "no_legs (options ?c') = Inr False"
    by (simp add: add_to_slot_options no_legs_update_a)
  have a: "map_of (options ?c') ''Option A'' = Some (Some opt)"
    by (simp add: add_to_slot_options map_of_update_same)
  from call_sop_solves[OF nl bd a, of e] assms show ?thesis
    by (simp add: add_to_slot_amount add_to_slot_hedge_calls split: if_splits)
qed

lemma stored_a_needs_b:
  "hedge_calls (events (add_to_slot e c ''Option A'' opt days s)) \<noteq> [] \<Longrightarrow>
     delta_recorded (greeks c) ''Option B''"
  using add_to_slot_other_delta[of "''Option B''" "''Option A''" e c opt days s]
  by (simp add: add_to_slot_hedge_calls both_delta_True split: if_splits)

lemma stored_b_needs_a:
  "hedge_calls (events (add_to_slot e c ''Option B'' opt days s)) \<noteq> [] \<Longrightarrow>
     delta_recorded (greeks c) ''Option A''"
  using add_to_slot_other_delta[of "''Option A''" "''Option B''" e c opt days s]
  by (simp add: add_to_slot_hedge_calls both_delta_True split: if_splits)

lemma sop_after_call_add_b:
  "hedge_calls (events (call_add e c td (Some a))) \<noteq> [] \<and>
   \<not> delta_recorded (greeks c) ''Option B'' \<and> map_of (options c) ''Option A'' = Some (Some la) \<longrightarrow>
     hedge_calls (events (call_sop e (ctrl (call_add e c td (Some a))) (Some ())))
       = [HedgeCall (amount c) (leg_type la) (greeks (ctrl (call_add e c td (Some a)))) (leg_sign la)]"
  by (rule call_add_cases[where P = "\<lambda>out. hedge_calls (events out) \<noteq> [] \<and>
   \<not> delta_recorded (greeks c) ''Option B'' \<and> map_of (options c) ''Option A'' = Some (Some la) \<longrightarrow>
     hedge_calls (events (call_sop e (ctrl out) (Some ())))
       = [HedgeCall (amount c) (leg_type la) (greeks (ctrl out)) (leg_sign la)]" and ns = "Some a"])
     (auto simp: sop_after_add_to_b dest: stored_a_needs_b)

lemma sop_after_call_add_a:
  "hedge_calls (events (call_add e c td (Some a))) \<noteq> [] \<and>
   \<not> delta_recorded (greeks c) ''Option A'' \<longrightarrow>
     hedge_calls (events (call_sop e (ctrl (call_add e c td (Some a))) (Some ())))
       = hedge_calls (events (call_add e c td (Some a)))"
  by (rule call_add_cases[where P = "\<lambda>out. hedge_calls (events out) \<noteq> [] \<and>
   \<not> delta_recorded (greeks c) ''Option A'' \<longrightarrow>
     hedge_calls (events (call_sop e (ctrl out) (Some ()))) = hedge_calls (events out)"
        and ns = "Some a"])
     (auto simp: sop_after_add_to_a delta_recorded_def dest: stored_b_needs_a)

text \<open>
  C10, as the code has it. An add that has stored a leg, with a Delta then recorded for
  both slots, calls the solver with the type and the sign of the leg it has just stored,
  and \<^verbatim>\<open>call_add\<close> makes no other call of the solver. sop made while a Delta is recorded for
  both slots and Option A holds a leg calls the solver with the type and the sign recorded
  for Option A, and \<^verbatim>\<open>call_sop\<close> makes no other call of the solver. If the add that completed the pair stored its leg in
  Option B, sop on the resulting state passes the same arguments as that add exactly when
  the leg of Option A has the type and the sign of the added leg. If the add stored its leg
  in Option A (Option B was held already), sop passes the same arguments as that add.
\<close>

theorem add_and_sop_solver_arguments:
  "(ctrl (call_add e c td (Some a)) \<noteq> c \<and>
    delta_recorded (greeks (ctrl (call_add e c td (Some a)))) ''Option A'' \<and>
    delta_recorded (greeks (ctrl (call_add e c td (Some a)))) ''Option B'' \<longrightarrow>
      hedge_calls (events (call_add e c td (Some a)))
        = [HedgeCall (amount c) (if put a then ''Put'' else ''Call'')
             (greeks (ctrl (call_add e c td (Some a)))) (if short a then - 1 else 1)]) \<and>
   (hedge_calls (events (call_add e c td (Some a))) = [] \<or>
    hedge_calls (events (call_add e c td (Some a)))
      = [HedgeCall (amount c) (if put a then ''Put'' else ''Call'')
           (greeks (ctrl (call_add e c td (Some a)))) (if short a then - 1 else 1)]) \<and>
   (delta_recorded (greeks c) ''Option A'' \<and> delta_recorded (greeks c) ''Option B'' \<and>
    map_of (options c) ''Option A'' = Some (Some la) \<longrightarrow>
      hedge_calls (events (call_sop e c (Some ())))
        = [HedgeCall (amount c) (leg_type la) (greeks c) (leg_sign la)]) \<and>
   (hedge_calls (events (call_sop e c ns)) = [] \<or>
    (\<exists>oa. map_of (options c) ''Option A'' = Some (Some oa) \<and>
       hedge_calls (events (call_sop e c ns))
         = [HedgeCall (amount c) (leg_type oa) (greeks c) (leg_sign oa)])) \<and>
   (hedge_calls (events (call_add e c td (Some a))) \<noteq> [] \<and>
    \<not> delta_recorded (greeks c) ''Option B'' \<and> map_of (options c) ''Option A'' = Some (Some la) \<longrightarrow>
      hedge_calls (events (call_sop e (ctrl (call_add e c td (Some a))) (Some ())))
        = [HedgeCall (amount c) (leg_type la) (greeks (ctrl (call_add e c td (Some a))))
             (leg_sign la)] \<and>
      (hedge_calls (events (call_sop e (ctrl (call_add e c td (Some a))) (Some ())))
         = hedge_calls (events (call_add e c td (Some a)))
       \<longleftrightarrow> leg_type la = (if put a then ''Put'' else ''Call'') \<and>
           leg_sign la = (if short a then - 1 else 1))) \<and>
   (hedge_calls (events (call_add e c td (Some a))) \<noteq> [] \<and>
    \<not> delta_recorded (greeks c) ''Option A'' \<longrightarrow>
      hedge_calls (events (call_sop e (ctrl (call_add e c td (Some a))) (Some ())))
        = hedge_calls (events (call_add e c td (Some a))))"
proof -
  have solves: "ctrl (call_add e c td (Some a)) \<noteq> c \<and>
    delta_recorded (greeks (ctrl (call_add e c td (Some a)))) ''Option A'' \<and>
    delta_recorded (greeks (ctrl (call_add e c td (Some a)))) ''Option B'' \<longrightarrow>
      hedge_calls (events (call_add e c td (Some a)))
        = [HedgeCall (amount c) (if put a then ''Put'' else ''Call'')
             (greeks (ctrl (call_add e c td (Some a)))) (if short a then - 1 else 1)]"
    using call_add_solves[of e c td a] by (simp add: add_opt_type_def add_sign_def)
  have add: "hedge_calls (events (call_add e c td (Some a))) = [] \<or>
    hedge_calls (events (call_add e c td (Some a)))
      = [HedgeCall (amount c) (if put a then ''Put'' else ''Call'')
           (greeks (ctrl (call_add e c td (Some a)))) (if short a then - 1 else 1)]"
    using call_add_hedge_calls[of e c td a] by (simp add: add_opt_type_def add_sign_def)
  have b: "hedge_calls (events (call_add e c td (Some a))) \<noteq> [] \<and>
    \<not> delta_recorded (greeks c) ''Option B'' \<and> map_of (options c) ''Option A'' = Some (Some la) \<longrightarrow>
      hedge_calls (events (call_sop e (ctrl (call_add e c td (Some a))) (Some ())))
        = [HedgeCall (amount c) (leg_type la) (greeks (ctrl (call_add e c td (Some a))))
             (leg_sign la)] \<and>
      (hedge_calls (events (call_sop e (ctrl (call_add e c td (Some a))) (Some ())))
         = hedge_calls (events (call_add e c td (Some a)))
       \<longleftrightarrow> leg_type la = (if put a then ''Put'' else ''Call'') \<and>
           leg_sign la = (if short a then - 1 else 1))"
    using add sop_after_call_add_b[of e c td a la] by auto
  show ?thesis
    using solves add call_sop_solves_recorded[of c la e] call_sop_hedge_calls[of e c ns] b
      sop_after_call_add_a[of e c td a]
    by blast
qed

theorem add_and_sop_solver_arguments_witness:
  "hedge_calls (events (call_add example_env one_leg_controller 10 add_put_short_1))
     = [HedgeCall 1000 ''Put'' (greeks two_leg_controller) (- 1)] \<and>
   hedge_calls (events (call_sop example_env two_leg_controller (Some ())))
     = [HedgeCall 1000 ''Call'' (greeks two_leg_controller) 1]"
proof -
  have add: "hedge_calls (events (call_add example_env one_leg_controller 10 add_put_short_1))
     = [HedgeCall 1000 ''Put'' (greeks two_leg_controller) (- 1)]"
    by (simp add: two_leg_controller_eq one_leg_controller_eq picked_controller_eq example_defs
        command_defs)
  have pre: "\<not> delta_recorded (greeks one_leg_controller) ''Option B''"
    "map_of (options one_leg_controller) ''Option A''
       = Some (Some \<lparr>leg_type = ''Call'', leg_sign = 1, leg_strike = 100,
                     leg_implied_volatility = 1 / 5, leg_cost = 5\<rparr>)"
    "amount one_leg_controller = 1000"
    by (simp_all add: one_leg_controller_eq picked_controller_eq delta_recorded_def has_key_def)
  from add_and_sop_solver_arguments[where e = example_env and c = one_leg_controller and td = 10
      and a = "\<lparr>put = True, short = True, add_identifier = 1\<rparr>"
      and la = "\<lparr>leg_type = ''Call'', leg_sign = 1, leg_strike = 100,
                 leg_implied_volatility = 1 / 5, leg_cost = 5\<rparr>"] add pre
  have "hedge_calls (events (call_sop example_env two_leg_controller (Some ())))
     = [HedgeCall 1000 ''Call'' (greeks two_leg_controller) 1]"
    by (simp add: add_put_short_1_def two_leg_controller_def)
  with add show ?thesis by simp
qed

text \<open>
  C10, as stated, fails: after \<^verbatim>\<open>rmv Option A\<close> the next add fills Option A. It completes
  the pair with a long call beside the short put of Option B, and the add and the sop that
  follows give the solver the same side and sign. And after \<^verbatim>\<open>rmv -a\<close>, which keeps the
  Greeks of both slots, sop does not call the solver: it asks for options to be added.
\<close>

theorem add_into_option_a_same_arguments:
  "map_of (options (ctrl (call_add example_env option_b_controller 10 add_call_long_1))) ''Option A''
     = Some (Some \<lparr>leg_type = ''Call'', leg_sign = 1, leg_strike = 105,
                   leg_implied_volatility = 1 / 4, leg_cost = 3\<rparr>) \<and>
   map_of (options (ctrl (call_add example_env option_b_controller 10 add_call_long_1))) ''Option B''
     = Some (Some \<lparr>leg_type = ''Put'', leg_sign = - 1, leg_strike = 105,
                   leg_implied_volatility = 2 / 5, leg_cost = 2\<rparr>) \<and>
   hedge_calls (events (call_add example_env option_b_controller 10 add_call_long_1))
     = [HedgeCall 1000 ''Call''
          (greeks (ctrl (call_add example_env option_b_controller 10 add_call_long_1))) 1] \<and>
   hedge_calls (events (call_sop example_env
                          (ctrl (call_add example_env option_b_controller 10 add_call_long_1))
                          (Some ())))
     = [HedgeCall 1000 ''Call''
          (greeks (ctrl (call_add example_env option_b_controller 10 add_call_long_1))) 1] \<and>
   delta_recorded (greeks all_removed_controller) ''Option A'' \<and>
   delta_recorded (greeks all_removed_controller) ''Option B'' \<and>
   call_sop example_env all_removed_controller (Some ())
     = \<lparr>ctrl = all_removed_controller, events = [Console Msg_add_options], raised = None\<rparr>"
  by (simp add: option_b_controller_eq all_removed_controller_def two_leg_controller_eq
      picked_controller_eq delta_recorded_def example_defs command_defs)

section \<open>Every leg has its Greeks\<close>

lemma init_legs_have_greeks:
  "init_controller tk ex cs ps price = Inr c \<Longrightarrow> legs_have_greeks c"
  by (auto simp: init_controller_def legs_have_greeks_def slot_leg_def split: if_splits)

lemma call_pick_legs_have_greeks:
  "legs_have_greeks c \<Longrightarrow> legs_have_greeks (ctrl (call_pick e c td ns))"
  by (simp add: legs_have_greeks_def slot_leg_def delta_recorded_def call_pick_options
      call_pick_other_greeks)

lemma add_to_slot_legs_have_greeks:
  assumes "legs_have_greeks c" and "map_of (greeks c) slot = Some ge"
    and "slot = ''Option A'' \<or> slot = ''Option B''"
  shows "legs_have_greeks (ctrl (add_to_slot e c slot opt days s))"
  using assms add_to_slot_delta[OF assms(2), of e opt days s]
    add_to_slot_other_delta[of "''Option A''" "''Option B''" e c opt days s]
    add_to_slot_other_delta[of "''Option B''" "''Option A''" e c opt days s]
    add_to_slot_slot_leg[of "''Option A''" "''Option B''" e c opt days s]
    add_to_slot_slot_leg[of "''Option B''" "''Option A''" e c opt days s]
  by (auto simp: legs_have_greeks_def)

lemma call_add_legs_have_greeks:
  "legs_have_greeks c \<longrightarrow> legs_have_greeks (ctrl (call_add e c td ns))"
  by (rule call_add_cases[where P = "\<lambda>out. legs_have_greeks c \<longrightarrow> legs_have_greeks (ctrl out)"])
     (simp_all add: add_to_slot_legs_have_greeks)

lemma call_rmv_legs_have_greeks:
  "legs_have_greeks c \<longrightarrow> legs_have_greeks (ctrl (call_rmv c ns))"
  by (rule call_rmv_cases[where P = "\<lambda>out. legs_have_greeks c \<longrightarrow> legs_have_greeks (ctrl out)"])
     (auto simp: legs_have_greeks_def slot_leg_def delta_recorded_def update_conv'
        split: option.splits)

lemma exec_legs_have_greeks:
  "legs_have_greeks c \<Longrightarrow> legs_have_greeks (ctrl (exec e c cmd))"
  by (cases cmd)
     (simp_all add: call_pick_legs_have_greeks call_add_legs_have_greeks call_rmv_legs_have_greeks
        call_sop_ctrl call_plot_ctrl)

lemma run_legs_have_greeks:
  "legs_have_greeks c \<Longrightarrow> legs_have_greeks (ctrl (run e c cmds))"
  by (induction cmds arbitrary: c) (auto simp: Let_def exec_legs_have_greeks split: option.splits)

text \<open>
  The constructor's state has no leg, and every command keeps the property that a slot
  holding a leg has a Delta recorded, whether the command returns or raises; so the property
  holds at the end of every session. (The converse is what \<^verbatim>\<open>rmv -a\<close> breaks.)
\<close>

theorem legs_have_greeks_invariant:
  "(init_controller tk ex cs ps price = Inr c \<longrightarrow> legs_have_greeks c) \<and>
   (legs_have_greeks c \<longrightarrow>
      legs_have_greeks (ctrl (exec e c cmd)) \<and> legs_have_greeks (ctrl (run e c cmds)))"
  using init_legs_have_greeks[of tk ex cs ps price c] exec_legs_have_greeks[of c e cmd]
    run_legs_have_greeks[of c e cmds]
  by blast

theorem legs_have_greeks_invariant_witness:
  "legs_have_greeks example_controller \<and>
   legs_have_greeks (ctrl (run example_env example_controller
      [Pick 10 pick_100_long_put, Add 10 add_call_long_0, Add 10 add_put_short_1,
       Rmv rmv_option_a])) \<and>
   slot_leg two_leg_controller ''Option A'' \<and> delta_recorded (greeks two_leg_controller) ''Option A''"
proof -
  from legs_have_greeks_invariant[of "''X''" "''2030-01-18''"
      "[(100, 0.2, 5), (105, 0.25, 3), (110, 0.3, 2)]" "[(100, 0.3, 1), (105, 0.4, 2)]" 102
      example_controller example_env _
      "[Pick 10 pick_100_long_put, Add 10 add_call_long_0, Add 10 add_put_short_1,
        Rmv rmv_option_a]"]
    example_controller_init
  have "legs_have_greeks example_controller"
    and "legs_have_greeks (ctrl (run example_env example_controller
      [Pick 10 pick_100_long_put, Add 10 add_call_long_0, Add 10 add_put_short_1,
       Rmv rmv_option_a]))"
    by blast+
  moreover have "slot_leg two_leg_controller ''Option A''"
    "delta_recorded (greeks two_leg_controller) ''Option A''"
    by (simp_all add: two_leg_controller_eq picked_controller_eq slot_leg_def delta_recorded_def
        has_key_def)
  ultimately show ?thesis by simp
qed

section \<open>The Greeks match the legs in a session without rmv -a\<close>

lemma init_greeks_match_legs:
  "init_controller tk ex cs ps price = Inr c \<Longrightarrow> greeks_match_legs c"
  by (auto simp: init_controller_def greeks_match_legs_def slot_leg_def delta_recorded_def
      has_key_def split: if_splits)

lemma call_pick_greeks_match_legs:
  "greeks_match_legs c \<Longrightarrow> greeks_match_legs (ctrl (call_pick e c td ns))"
  by (simp add: greeks_match_legs_def slot_leg_def delta_recorded_def call_pick_options
      call_pick_other_greeks)

lemma add_to_slot_slot_leg_same: "slot_leg (ctrl (add_to_slot e c slot opt days s)) slot"
  by (simp add: slot_leg_def add_to_slot_options map_of_update_same)

lemma add_to_slot_greeks_match_legs:
  assumes "greeks_match_legs c" and "map_of (greeks c) slot = Some ge"
    and "slot = ''Option A'' \<or> slot = ''Option B''"
  shows "greeks_match_legs (ctrl (add_to_slot e c slot opt days s))"
  using assms add_to_slot_delta[OF assms(2), of e opt days s]
    add_to_slot_slot_leg_same[of e c slot opt days s]
    add_to_slot_other_delta[of "''Option A''" "''Option B''" e c opt days s]
    add_to_slot_other_delta[of "''Option B''" "''Option A''" e c opt days s]
    add_to_slot_slot_leg[of "''Option A''" "''Option B''" e c opt days s]
    add_to_slot_slot_leg[of "''Option B''" "''Option A''" e c opt days s]
  by (auto simp: greeks_match_legs_def)

lemma call_add_greeks_match_legs:
  "greeks_match_legs c \<longrightarrow> greeks_match_legs (ctrl (call_add e c td ns))"
  by (rule call_add_cases[where P = "\<lambda>out. greeks_match_legs c \<longrightarrow> greeks_match_legs (ctrl out)"])
     (simp_all add: add_to_slot_greeks_match_legs)


lemma call_rmv_greeks_match_legs:
  "greeks_match_legs c \<and> (\<forall>a. ns = Some a \<longrightarrow> \<not> rmv_all a) \<longrightarrow>
     greeks_match_legs (ctrl (call_rmv c ns))"
proof (rule call_rmv_cases[where P = "\<lambda>out. greeks_match_legs c \<and>
    (\<forall>a. ns = Some a \<longrightarrow> \<not> rmv_all a) \<longrightarrow> greeks_match_legs (ctrl out)"], goal_cases)
  case (6 a ws)
  show ?case
    by (cases "join_space ws = ''Option A''"; cases "join_space ws = ''Option B''")
       (simp_all add: greeks_match_legs_def slot_leg_def delta_recorded_def has_key_def update_conv')
qed simp_all

lemma exec_greeks_match_legs:
  "greeks_match_legs c \<Longrightarrow> \<forall>a. cmd = Rmv (Some a) \<longrightarrow> \<not> rmv_all a \<Longrightarrow>
     greeks_match_legs (ctrl (exec e c cmd))"
  by (cases cmd)
     (simp_all add: call_pick_greeks_match_legs call_add_greeks_match_legs
        call_rmv_greeks_match_legs call_sop_ctrl call_plot_ctrl)

lemma run_greeks_match_legs:
  "greeks_match_legs c \<Longrightarrow> \<forall>a. Rmv (Some a) \<in> set cmds \<longrightarrow> \<not> rmv_all a \<Longrightarrow>
     greeks_match_legs (ctrl (run e c cmds))"
proof (induction cmds arbitrary: c)
  case Nil
  then show ?case by simp
next
  case (Cons x xs)
  have step: "greeks_match_legs (ctrl (exec e c x))"
    using Cons.prems by (auto intro: exec_greeks_match_legs)
  have rest: "\<forall>a. Rmv (Some a) \<in> set xs \<longrightarrow> \<not> rmv_all a"
    using Cons.prems(2) by auto
  show ?case
    using step Cons.IH[OF step rest] by (simp add: Let_def split: option.splits)
qed

text \<open>
  The constructor's state has neither legs nor Greeks in the two slots, and every command
  other than \<^verbatim>\<open>rmv -a\<close>, whether it returns or raises, keeps the property that a slot holds
  a leg exactly when it has a Delta recorded; so the property holds at the end of every
  session without \<^verbatim>\<open>rmv -a\<close>.
\<close>

theorem greeks_match_legs_without_rmv_all:
  "(init_controller tk ex cs ps price = Inr c \<longrightarrow> greeks_match_legs c) \<and>
   (greeks_match_legs c \<and> (\<forall>a. cmd = Rmv (Some a) \<longrightarrow> \<not> rmv_all a) \<longrightarrow>
      greeks_match_legs (ctrl (exec e c cmd))) \<and>
   (greeks_match_legs c \<and> (\<forall>a. Rmv (Some a) \<in> set cmds \<longrightarrow> \<not> rmv_all a) \<longrightarrow>
      greeks_match_legs (ctrl (run e c cmds)))"
  using init_greeks_match_legs[of tk ex cs ps price c] exec_greeks_match_legs[of c cmd e]
    run_greeks_match_legs[of c cmds e]
  by blast

theorem greeks_match_legs_without_rmv_all_witness:
  "greeks_match_legs example_controller \<and>
   greeks_match_legs (ctrl (run example_env example_controller
      [Pick 10 pick_100_long_put, Add 10 add_call_long_0, Add 10 add_put_short_1,
       Rmv rmv_option_a])) \<and>
   \<not> greeks_match_legs all_removed_controller"
proof -
  have cmds: "\<forall>a. Rmv (Some a) \<in> set [Pick 10 pick_100_long_put, Add 10 add_call_long_0,
      Add 10 add_put_short_1, Rmv rmv_option_a] \<longrightarrow> \<not> rmv_all a"
    by (auto simp: rmv_option_a_def)
  from greeks_match_legs_without_rmv_all[of "''X''" "''2030-01-18''"
      "[(100, 0.2, 5), (105, 0.25, 3), (110, 0.3, 2)]" "[(100, 0.3, 1), (105, 0.4, 2)]" 102
      example_controller _ example_env
      "[Pick 10 pick_100_long_put, Add 10 add_call_long_0, Add 10 add_put_short_1,
        Rmv rmv_option_a]"]
    example_controller_init cmds
  have "greeks_match_legs example_controller"
    and "greeks_match_legs (ctrl (run example_env example_controller
      [Pick 10 pick_100_long_put, Add 10 add_call_long_0, Add 10 add_put_short_1,
       Rmv rmv_option_a]))"
    by blast+
  moreover have "\<not> greeks_match_legs all_removed_controller"
    by (simp add: all_removed_controller_def two_leg_controller_eq picked_controller_eq
        greeks_match_legs_def slot_leg_def delta_recorded_def example_defs command_defs)
  ultimately show ?thesis by simp
qed

end
